theory Spec2Isabelle
  imports Complex_Main
begin


section \<open>Errors\<close>

text \<open>
  The Python exceptions that the modelled code paths of \<^verbatim>\<open>som.py\<close> can raise.
  A function that can raise returns \<open>py_error + 'a\<close>, with \<open>Inl\<close> for the exception.
\<close>

datatype py_error = ValueError | AssertionError | ZeroDivisionError | IndexError | AttributeError

section \<open>Map geometry: the rectilinear grid\<close>

text \<open>
  \<^verbatim>\<open>class Grid(MapGeometry)\<close>. The attributes \<^verbatim>\<open>_size\<close>, \<^verbatim>\<open>_separations\<close>
  (the lazily filled cache of \<^verbatim>\<open>MapGeometry\<close>), \<^verbatim>\<open>_shape\<close>, \<^verbatim>\<open>_wrap\<close> and
  \<^verbatim>\<open>_metric\<close> become the fields of a record. Floating point numbers are idealised
  as real numbers throughout.
\<close>

record Grid =
  grid_size :: nat
  grid_separations :: "real list list option"
  grid_shape :: "nat list"
  grid_wrap :: "bool list"
  grid_metric :: string

text \<open>
  \<^verbatim>\<open>Grid.__init__(self, *signature, metric='L2')\<close>: the shape is the absolute values of
  the signature, \<^verbatim>\<open>x.size\<close> of an array of that shape is the product of the shape,
  a negative entry asks for wrap around, and a metric outside the three names raises
  \<^verbatim>\<open>ValueError\<close>.
\<close>

definition Grid_init :: "int list \<Rightarrow> string \<Rightarrow> py_error + Grid" where
  "Grid_init signature metric =
     (let shape = map (\<lambda>k. nat \<bar>k\<bar>) signature;
          wrap = map (\<lambda>k. k < 0) signature
      in if metric \<notin> set [''L0'', ''L1'', ''L2''] then Inl ValueError
         else Inr \<lparr>grid_size = prod_list shape, grid_separations = None,
                   grid_shape = shape, grid_wrap = wrap, grid_metric = metric\<rparr>)"

text \<open>
  The multi-index (C order) of a flat index into an array of the given shape: what
  \<^verbatim>\<open>reshape\<close> between the shape \<^verbatim>\<open>shape + shape\<close> and \<^verbatim>\<open>(size, size)\<close> relies on.
\<close>

fun unravel :: "nat list \<Rightarrow> nat \<Rightarrow> nat list" where
  "unravel [] i = []"
| "unravel (n # ns) i = (i div prod_list ns) # unravel ns (i mod prod_list ns)"

text \<open>
  One entry of \<^verbatim>\<open>dxk\<close> after the wrap step: \<^verbatim>\<open>W = dxk > nk // 2; dxk[W] *= -1;
  dxk[W] += nk\<close>.
\<close>

definition wrap_entry :: "int \<Rightarrow> bool \<Rightarrow> int \<Rightarrow> int" where
  "wrap_entry nk wrapk d = (if wrapk \<and> d > nk div 2 then d * (- 1) + nk else d)"

text \<open>
  The \<^verbatim>\<open>(nk, nk)\<close> matrix \<^verbatim>\<open>dxk = np.abs(xk.reshape(nk, 1) - xk)\<close> of absolute integer
  separations along one axis, wrapped when the axis wraps.
\<close>

definition axis_dx :: "nat \<Rightarrow> bool \<Rightarrow> int list list" where
  "axis_dx nk wrapk =
     map (\<lambda>a. map (\<lambda>b. wrap_entry (int nk) wrapk \<bar>int a - int b\<bar>) [0..<nk]) [0..<nk]"

text \<open>
  \<^verbatim>\<open>dxk.reshape(S)\<close> broadcast against the array of shape \<^verbatim>\<open>shape + shape\<close>, written
  in the flat \<^verbatim>\<open>(size, size)\<close> layout of the result: the entry at row \<open>i\<close> and column
  \<open>j\<close> is \<^verbatim>\<open>dxk\<close> at the \<open>k\<close>-th coordinates of the two nodes.
\<close>

definition broadcast_axis :: "nat list \<Rightarrow> nat \<Rightarrow> int list list \<Rightarrow> int list list" where
  "broadcast_axis shape k dxk =
     map (\<lambda>i. map (\<lambda>j. dxk ! (unravel shape i ! k) ! (unravel shape j ! k))
                   [0..<prod_list shape])
         [0..<prod_list shape]"

text \<open>The body of the loop over the axes: one axis' contribution, by metric.\<close>

definition add_axis :: "string \<Rightarrow> nat list \<Rightarrow> real list list \<Rightarrow> nat \<times> bool \<Rightarrow> real list list" where
  "add_axis metric shape separation kw =
     (let k = fst kw; wrapk = snd kw;
          nk = shape ! k;
          dxk = broadcast_axis shape k (axis_dx nk wrapk)
      in if metric = ''L2'' then
           map2 (map2 (\<lambda>s d. s + (real_of_int d)\<^sup>2)) separation dxk
         else if metric = ''L1'' then
           map2 (map2 (\<lambda>s d. s + real_of_int d)) separation dxk
         else if metric = ''L0'' then
           map2 (map2 (\<lambda>s d. max s (real_of_int d))) separation dxk
         else separation)"

text \<open>\<^verbatim>\<open>Grid._calculate_separations\<close>.\<close>

definition calculate_separations :: "Grid \<Rightarrow> real list list" where
  "calculate_separations g =
     (let size = prod_list (grid_shape g);
          separation0 = replicate size (replicate size (0::real));
          separation = fold (\<lambda>kw s. add_axis (grid_metric g) (grid_shape g) s kw)
                            (enumerate 0 (grid_wrap g)) separation0
      in if grid_metric g = ''L2'' then map (map sqrt) separation else separation)"

text \<open>
  The property \<^verbatim>\<open>MapGeometry.separations\<close>: computed on first access, cached in
  \<^verbatim>\<open>_separations\<close> afterwards. It returns the matrix and the (possibly updated) object.
\<close>

definition separations :: "Grid \<Rightarrow> real list list \<times> Grid" where
  "separations g =
     (case grid_separations g of
        None \<Rightarrow> (let s = calculate_separations g in (s, g\<lparr>grid_separations := Some s\<rparr>))
      | Some s \<Rightarrow> (s, g))"

text \<open>
  The invariant of the loop over the axes: a square matrix of the given size that is
  symmetric, non-negative and zero on the diagonal.
\<close>

definition sep_inv :: "nat \<Rightarrow> real list list \<Rightarrow> bool" where
  "sep_inv s M \<longleftrightarrow>
     length M = s \<and> (\<forall>i<s. length (M ! i) = s) \<and>
     (\<forall>i<s. \<forall>j<s. M ! i ! j = M ! j ! i \<and> 0 \<le> M ! i ! j) \<and>
     (\<forall>i<s. M ! i ! i = 0)"

text \<open>The broadcast contribution of one axis to the entry at row \<open>i\<close> and column \<open>j\<close>.\<close>

definition axis_term :: "nat list \<Rightarrow> nat \<Rightarrow> bool \<Rightarrow> nat \<Rightarrow> nat \<Rightarrow> int" where
  "axis_term shape k wrapk i j =
     wrap_entry (int (shape ! k)) wrapk \<bar>int (unravel shape i ! k) - int (unravel shape j ! k)\<bar>"

section \<open>Arrays\<close>

text \<open>
  A two-dimensional \<^verbatim>\<open>numpy\<close> array: its shape and its rows. The shape is kept beside
  the rows because an array with no rows still has a number of columns
  (\<^verbatim>\<open>N, D = data.shape\<close>).
\<close>

record matrix =
  nrow :: nat
  ncol :: nat
  entries :: "real list list"

definition wf_matrix :: "matrix \<Rightarrow> bool" where
  "wf_matrix m \<longleftrightarrow> length (entries m) = nrow m \<and> (\<forall>r \<in> set (entries m). length r = ncol m)"

text \<open>
  \<^verbatim>\<open>np.empty\<close> returns whatever the memory holds. The content is a parameter of the
  model: a function from the flat offset to the value found there.
\<close>

definition np_empty1 :: "(nat \<Rightarrow> 'a) \<Rightarrow> nat \<Rightarrow> 'a list" where
  "np_empty1 junk n = map junk [0..<n]"

definition np_empty2 :: "(nat \<Rightarrow> 'a) \<Rightarrow> nat \<Rightarrow> nat \<Rightarrow> 'a list list" where
  "np_empty2 junk n m = map (\<lambda>i. map (\<lambda>j. junk (i * m + j)) [0..<m]) [0..<n]"

definition np_empty3 :: "(nat \<Rightarrow> 'a) \<Rightarrow> nat \<Rightarrow> nat \<Rightarrow> nat \<Rightarrow> 'a list list list" where
  "np_empty3 junk n m l =
     map (\<lambda>i. map (\<lambda>j. map (\<lambda>k. junk ((i * m + j) * l + k)) [0..<l]) [0..<m]) [0..<n]"

text \<open>
  \<^verbatim>\<open>np.argmin\<close> of a one-dimensional array: the index of the first occurrence of the
  minimum. The value on the empty list is never used: \<open>np_argmin\<close> raises there, as
  \<^verbatim>\<open>numpy\<close> does.
\<close>

fun argmin :: "real list \<Rightarrow> nat" where
  "argmin [] = 0"
| "argmin [x] = 0"
| "argmin (x # y # ys) =
     (let k = argmin (y # ys) in if x \<le> (y # ys) ! k then 0 else Suc k)"

definition np_argmin :: "real list \<Rightarrow> py_error + nat" where
  "np_argmin xs = (if xs = [] then Inl ValueError else Inr (argmin xs))"

text \<open>
  \<^verbatim>\<open>np.argmin(a, axis=1)\<close> of an array of shape \<open>(n, W)\<close>, given as its rows and \<open>W\<close>:
  it raises on a reduction axis of length zero.
\<close>

definition np_argmin_axis1 :: "nat \<Rightarrow> real list list \<Rightarrow> py_error + nat list" where
  "np_argmin_axis1 W a = (if W = 0 then Inl ValueError else Inr (map argmin a))"

text \<open>
  \<^verbatim>\<open>np.sum(m, axis=0)\<close> of an array of shape \<open>(D, W)\<close>, given as its rows and \<open>W\<close>: the
  sums of the columns.
\<close>

definition np_sum_axis0 :: "nat \<Rightarrow> real list list \<Rightarrow> real list" where
  "np_sum_axis0 W m = map (\<lambda>w. sum_list (map (\<lambda>r. r ! w) m)) [0..<W]"

text \<open>
  The arithmetic of \<^verbatim>\<open>find_bmu\<close>. The buffer \<^verbatim>\<open>buf\<close> has the dtype of the prototype
  matrix (\<^verbatim>\<open>np.empty((S, D, W), self._weights.dtype)\<close>), and every operation on it
  rounds to that dtype: the conversion of a data entry when it is stored into \<^verbatim>\<open>buf\<close>,
  the subtraction \<^verbatim>\<open>buf -= self._weights\<close>, the square \<^verbatim>\<open>np.power(buf, 2, out=buf)\<close>,
  and the sum of the entries along the feature axis as it arrives in the
  \<^verbatim>\<open>float64\<close> array \<^verbatim>\<open>distsq\<close>. The four operations are a parameter of the model; the
  values themselves are real numbers (the finite numbers of a dtype are real numbers;
  \<^verbatim>\<open>inf\<close> and \<^verbatim>\<open>nan\<close> are outside the model).
\<close>

record arith =
  a_cast :: "real \<Rightarrow> real"
  a_sub :: "real \<Rightarrow> real \<Rightarrow> real"
  a_sqr :: "real \<Rightarrow> real"
  a_sum :: "real list \<Rightarrow> real"

text \<open>Arithmetic without rounding.\<close>

definition exact_arith :: arith where
  "exact_arith =
     \<lparr>a_cast = (\<lambda>x. x), a_sub = (\<lambda>x y. x - y), a_sqr = (\<lambda>x. x\<^sup>2), a_sum = sum_list\<rparr>"

text \<open>
  \<^verbatim>\<open>np.sum(m, axis=0)\<close> of an array of shape \<open>(D, W)\<close> in the given arithmetic.
\<close>

definition sum_axis0 :: "arith \<Rightarrow> nat \<Rightarrow> real list list \<Rightarrow> real list" where
  "sum_axis0 ar W m = map (\<lambda>w. a_sum ar (map (\<lambda>r. r ! w) m)) [0..<W]"

section \<open>The self-organizing map\<close>

text \<open>
  \<^verbatim>\<open>class SelfOrganizingMap\<close>: the attributes \<^verbatim>\<open>_mapgeom\<close>, \<^verbatim>\<open>_weights\<close>, \<^verbatim>\<open>_loss\<close>
  and \<^verbatim>\<open>data\<close>. An attribute that has not been assigned yet is \<open>None\<close>; reading it
  raises \<^verbatim>\<open>AttributeError\<close>. The prototype matrix \<^verbatim>\<open>_weights\<close> has shape \<open>(D, size)\<close>.
\<close>

record som =
  som_mapgeom :: Grid
  som_weights :: "matrix option"
  som_loss :: "real list option"
  som_data :: "matrix option"

definition som_init :: "Grid \<Rightarrow> som" where
  "som_init mapgeom =
     \<lparr>som_mapgeom = mapgeom, som_weights = None, som_loss = None, som_data = None\<rparr>"

subsection \<open>Best matching units\<close>

text \<open>
  The arrays that \<^verbatim>\<open>find_bmu\<close> allocates and then updates in place: \<^verbatim>\<open>bmu\<close> of shape
  \<open>(N)\<close>, \<^verbatim>\<open>buf\<close> of shape \<open>(S, D, W)\<close> and \<^verbatim>\<open>distsq\<close> of shape \<open>(S, W)\<close>, and what
  the memory held when they were allocated.
\<close>

record bmu_locals =
  l_bmu :: "int list"
  l_buf :: "real list list list"
  l_distsq :: "real list list"

record bmu_junk =
  junk_bmu :: "nat \<Rightarrow> int"
  junk_buf :: "nat \<Rightarrow> real"
  junk_distsq :: "nat \<Rightarrow> real"

text \<open>
  The body of the loop over the batches:
  \<^verbatim>\<open>
  ilo = ibatch * batchsize
  ihi = min(ilo + batchsize, N)
  buf[:ihi-ilo] = data[ilo:ihi,:,np.newaxis]
  buf -= self._weights
  buf = np.power(buf, 2, out=buf)
  distsq[:] = np.sum(buf, axis=1)
  bmu[ilo:ihi] = np.argmin(distsq[:ihi-ilo], axis=1)
  \<close>
  The rows of \<^verbatim>\<open>buf\<close> from \<open>ihi - ilo\<close> on keep what the batch before left there and
  are subtracted from and squared again.
\<close>

definition find_bmu_batch ::
  "arith \<Rightarrow> matrix \<Rightarrow> matrix \<Rightarrow> nat \<Rightarrow> nat \<Rightarrow> bmu_locals \<Rightarrow> py_error + bmu_locals" where
  "find_bmu_batch ar data weights batchsize ibatch st =
     (let N = nrow data; W = ncol weights;
          ilo = ibatch * batchsize;
          ihi = min (ilo + batchsize) N;
          buf1 = map (map (\<lambda>v. replicate W (a_cast ar v)))
                     (take (ihi - ilo) (drop ilo (entries data)))
                   @ drop (ihi - ilo) (l_buf st);
          buf2 = map (\<lambda>m. map2 (map2 (a_sub ar)) m (entries weights)) buf1;
          buf3 = map (map (map (a_sqr ar))) buf2;
          distsq = map (sum_axis0 ar W) buf3
      in case np_argmin_axis1 W (take (ihi - ilo) distsq) of
           Inl e \<Rightarrow> Inl e
         | Inr idx \<Rightarrow>
             Inr \<lparr>l_bmu = take ilo (l_bmu st) @ map int idx @ drop ihi (l_bmu st),
                  l_buf = buf3, l_distsq = distsq\<rparr>)"

text \<open>\<^verbatim>\<open>for ibatch in range(nbatch)\<close>, stopping at the first exception.\<close>

fun find_bmu_loop ::
  "arith \<Rightarrow> matrix \<Rightarrow> matrix \<Rightarrow> nat \<Rightarrow> nat list \<Rightarrow> bmu_locals \<Rightarrow> py_error + bmu_locals" where
  "find_bmu_loop ar data weights batchsize [] st = Inr st"
| "find_bmu_loop ar data weights batchsize (ibatch # rest) st =
     (case find_bmu_batch ar data weights batchsize ibatch st of
        Inl e \<Rightarrow> Inl e
      | Inr st' \<Rightarrow> find_bmu_loop ar data weights batchsize rest st')"

text \<open>
  \<^verbatim>\<open>SelfOrganizingMap.find_bmu(self, data, batchsize=1024)\<close>. It returns the result (the
  array \<^verbatim>\<open>bmu\<close>, or the exception) and the object. \<^verbatim>\<open>batchsize\<close> is a Python integer:
  zero raises in the division, and a negative one in \<^verbatim>\<open>np.empty\<close> (negative dimension).
  The first argument is the arithmetic of the dtype of \<^verbatim>\<open>self._weights\<close>.
\<close>

definition find_bmu ::
  "arith \<Rightarrow> som \<Rightarrow> matrix \<Rightarrow> int \<Rightarrow> bmu_junk \<Rightarrow> (py_error + int list) \<times> som" where
  "find_bmu ar self data batchsize junk =
     (case som_weights self of
        None \<Rightarrow> (Inl AttributeError, self)
      | Some weights \<Rightarrow>
          (let N = nrow data; D = ncol data;
               D2 = nrow weights; W = ncol weights
           in if D \<noteq> D2 then (Inl AssertionError, self)
              else
                (let bmu = np_empty1 (junk_bmu junk) N
                 in if batchsize = 0 then (Inl ZeroDivisionError, self)
                    else
                      (let nbatch = (int N + batchsize - 1) div batchsize;
                           S = min (int N) batchsize
                       in if S < 0 then (Inl ValueError, self)
                          else
                            (let buf = np_empty3 (junk_buf junk) (nat S) D W;
                                 distsq = np_empty2 (junk_distsq junk) (nat S) W
                             in case find_bmu_loop ar data weights (nat batchsize) [0..<nat nbatch]
                                       \<lparr>l_bmu = bmu, l_buf = buf, l_distsq = distsq\<rparr> of
                                  Inl e \<Rightarrow> (Inl e, self)
                                | Inr st \<Rightarrow> (Inr (l_bmu st), self))))))"

text \<open>
  The squared Euclidean distance between row \<open>i\<close> of the data and prototype \<open>j\<close> (column
  \<open>j\<close> of the prototype matrix), as the specification words it.
\<close>

definition sq_euclid :: "matrix \<Rightarrow> matrix \<Rightarrow> nat \<Rightarrow> nat \<Rightarrow> real" where
  "sq_euclid data weights i j =
     (\<Sum>d \<leftarrow> [0..<ncol data]. (entries data ! i ! d - entries weights ! d ! j)\<^sup>2)"

text \<open>
  The squared distance between row \<open>i\<close> of the data and prototype \<open>j\<close> as \<^verbatim>\<open>find_bmu\<close>
  computes it: the data entry converted, the prototype entry subtracted, the difference
  squared, the squares summed over the features, each in the given arithmetic.
\<close>

definition computed_distsq :: "arith \<Rightarrow> matrix \<Rightarrow> matrix \<Rightarrow> nat \<Rightarrow> nat \<Rightarrow> real" where
  "computed_distsq ar data weights i j =
     a_sum ar (map (\<lambda>d. a_sqr ar (a_sub ar (a_cast ar (entries data ! i ! d))
                                            (entries weights ! d ! j)))
                   [0..<ncol data])"

text \<open>
  The squared distances of one sample to all the prototypes, as the loop body computes
  them for one row of \<^verbatim>\<open>buf\<close>.
\<close>

definition row_distsq :: "arith \<Rightarrow> matrix \<Rightarrow> real list \<Rightarrow> real list" where
  "row_distsq ar weights x =
     sum_axis0 ar (ncol weights)
       (map (map (a_sqr ar))
          (map2 (map2 (a_sub ar)) (map (\<lambda>v. replicate (ncol weights) (a_cast ar v)) x)
             (entries weights)))"

text \<open>The best matching unit of one sample: the entry of \<^verbatim>\<open>bmu\<close> that the loop writes for it.\<close>

definition bmu_of :: "arith \<Rightarrow> matrix \<Rightarrow> real list \<Rightarrow> int" where
  "bmu_of ar weights x = int (argmin (row_distsq ar weights x))"

section \<open>Training\<close>

subsection \<open>What \<^verbatim>\<open>fit\<close> is given\<close>

text \<open>
  The arguments of \<^verbatim>\<open>fit(self, data, maxiter=100, iterfrac=0.1, eta=0.5, init='random',
  seed=123, somz=False, verbose=False, save=None, use_saved=True)\<close>; \<^verbatim>\<open>verbose\<close> is not
  used by the code.
\<close>

record fit_args =
  a_data :: matrix
  a_maxiter :: int
  a_iterfrac :: real
  a_eta :: real
  a_init :: string
  a_seed :: int
  a_somz :: bool
  a_save :: "string option"
  a_use_saved :: bool

definition default_args :: "matrix \<Rightarrow> fit_args" where
  "default_args data =
     \<lparr>a_data = data, a_maxiter = 100, a_iterfrac = 1 / 10, a_eta = 1 / 2, a_init = ''random'',
      a_seed = 123, a_somz = False, a_save = None, a_use_saved = True\<rparr>"

text \<open>
  The pseudo-random generator \<^verbatim>\<open>np.random.RandomState\<close> is a parameter of the model:
  the state of a generator has some type \<open>'g\<close>, \<^verbatim>\<open>RandomState(seed)\<close> makes one, and each
  of \<^verbatim>\<open>rand(D, size)\<close>, \<^verbatim>\<open>normal(size=(D, size))\<close> and \<^verbatim>\<open>choice(N, batch_size)\<close> returns
  its draw and the state of the generator afterwards.
\<close>

record 'g rng_ops =
  RandomState :: "int \<Rightarrow> 'g"
  rng_rand :: "'g \<Rightarrow> nat \<Rightarrow> nat \<Rightarrow> real list list \<times> 'g"
  rng_normal :: "'g \<Rightarrow> nat \<Rightarrow> nat \<Rightarrow> real list list \<times> 'g"
  rng_choice :: "'g \<Rightarrow> nat \<Rightarrow> nat \<Rightarrow> nat list \<times> 'g"

text \<open>
  \<^verbatim>\<open>rng.choice(N, batch_size)\<close> raises \<^verbatim>\<open>ValueError\<close> for a negative number of samples,
  and for an empty population unless no sample is taken.
\<close>

definition choice :: "'g rng_ops \<Rightarrow> 'g \<Rightarrow> nat \<Rightarrow> int \<Rightarrow> py_error + (nat list \<times> 'g)" where
  "choice ops rng N batch_size =
     (if batch_size < 0 then Inl ValueError
      else if N = 0 \<and> batch_size \<noteq> 0 then Inl ValueError
      else Inr (rng_choice ops rng N (nat batch_size)))"

text \<open>
  The storage that \<^verbatim>\<open>save\<close> names: a directory, when it exists, may hold the files
  \<^verbatim>\<open>weights.npy\<close> and \<^verbatim>\<open>loss.npy\<close>.
\<close>

record saved_dir =
  weights_npy :: "matrix option"
  loss_npy :: "real list option"

type_synonym storage = "string \<Rightarrow> saved_dir option"

text \<open>The transpose \<^verbatim>\<open>.T\<close> of a two-dimensional array.\<close>

definition transpose_matrix :: "matrix \<Rightarrow> matrix" where
  "transpose_matrix m =
     \<lparr>nrow = ncol m, ncol = nrow m,
      entries = map (\<lambda>j. map (\<lambda>i. entries m ! i ! j) [0..<nrow m]) [0..<ncol m]\<rparr>"

subsection \<open>Numbers\<close>

text \<open>
  Floating point numbers are real numbers in this model. A division by zero, which
  gives \<^verbatim>\<open>inf\<close> or \<^verbatim>\<open>nan\<close> on \<^verbatim>\<open>numpy\<close> floats, has no counterpart in the reals (the
  quotient is zero there); the statements about values below stay away from such
  quotients.
\<close>

text \<open>
  Python's \<^verbatim>\<open>round\<close> of a float: to the nearest integer, a tie to the even one.
\<close>

definition py_round :: "real \<Rightarrow> int" where
  "py_round x =
     (let f = \<lfloor>x\<rfloor>; r = x - of_int f
      in if r < 1 / 2 then f else if 1 / 2 < r then f + 1
         else if even f then f else f + 1)"

text \<open>
  \<^verbatim>\<open>x ** y\<close> on floats, for the bases and exponents that occur here (a base that is not
  negative, an exponent that is not negative): anything to the power zero is one. For a
  negative base with a fractional exponent Python leaves the reals; that is outside the
  model.
\<close>

definition py_pow :: "real \<Rightarrow> real \<Rightarrow> real" where
  "py_pow x y = (if y = 0 then 1 else x powr y)"

text \<open>\<^verbatim>\<open>np.max\<close> and \<^verbatim>\<open>np.min\<close> of a flattened array: they raise on an empty one.\<close>

definition np_max :: "real list \<Rightarrow> py_error + real" where
  "np_max xs = (case xs of [] \<Rightarrow> Inl ValueError | x # ys \<Rightarrow> Inr (fold max ys x))"

definition np_min :: "real list \<Rightarrow> py_error + real" where
  "np_min xs = (case xs of [] \<Rightarrow> Inl ValueError | x # ys \<Rightarrow> Inr (fold min ys x))"

text \<open>
  \<^verbatim>\<open>np.mean\<close> of a flattened array. On an empty array \<^verbatim>\<open>numpy\<close> gives \<^verbatim>\<open>nan\<close> (and a
  warning); the real numbers have no such value, and the model gives zero there.
\<close>

definition np_mean :: "real list \<Rightarrow> real" where
  "np_mean xs = sum_list xs / real (length xs)"

text \<open>\<^verbatim>\<open>np.std(data, axis=0)\<close>: the standard deviation of each column.\<close>

definition np_std_axis0 :: "matrix \<Rightarrow> real list" where
  "np_std_axis0 data =
     map (\<lambda>d. let col = map (\<lambda>r. r ! d) (entries data);
                  mu = np_mean col
              in sqrt (np_mean (map (\<lambda>v. \<bar>v - mu\<bar>\<^sup>2) col)))
         [0..<ncol data]"

text \<open>
  \<^verbatim>\<open>self.data[batch_idx]\<close>: the rows at the given indices; an index out of range raises
  \<^verbatim>\<open>IndexError\<close>.
\<close>

definition take_rows :: "matrix \<Rightarrow> nat list \<Rightarrow> py_error + real list list" where
  "take_rows data idx =
     (if list_all (\<lambda>i. i < nrow data) idx then Inr (map (\<lambda>i. entries data ! i) idx)
      else Inl IndexError)"

subsection \<open>Loops that can raise\<close>

text \<open>
  The state of a computation that finished, or the exception it raised and the state at
  that moment (what has been assigned in place stays assigned).
\<close>

datatype 's run = Done 's | Raised py_error 's

text \<open>A \<^verbatim>\<open>for\<close> loop over a list, left at the first exception.\<close>

fun run_loop :: "('s \<Rightarrow> 'b \<Rightarrow> 's run) \<Rightarrow> 'b list \<Rightarrow> 's \<Rightarrow> 's run" where
  "run_loop body [] s = Done s"
| "run_loop body (x # xs) s =
     (case body s x of Done s' \<Rightarrow> run_loop body xs s' | Raised e s' \<Rightarrow> Raised e s')"

subsection \<open>The state of a training run\<close>

text \<open>
  What the training loops read and update in place: the arrays \<^verbatim>\<open>self._weights\<close> and
  \<^verbatim>\<open>self._loss\<close>, the geometry \<^verbatim>\<open>self._mapgeom\<close> (its cache of separations) and the
  generator \<^verbatim>\<open>rng\<close>. The field \<open>t_updates\<close> is not a value of the program: it counts
  how often the statement \<^verbatim>\<open>self._weights += ...\<close> has been executed.
\<close>

record 'g train_state =
  t_weights :: matrix
  t_loss :: "real list"
  t_geom :: Grid
  t_rng :: 'g
  t_updates :: nat

text \<open>
  \<^verbatim>\<open>dx = x.reshape(-1, 1) - self._weights\<close>, of the shape \<open>(D, W)\<close> of the prototype
  matrix, and \<^verbatim>\<open>self._weights += upd\<close> for an array of that shape.
\<close>

definition data_diff :: "real list \<Rightarrow> matrix \<Rightarrow> real list list" where
  "data_diff x weights =
     map (\<lambda>d. map (\<lambda>j. x ! d - entries weights ! d ! j) [0..<ncol weights]) [0..<nrow weights]"

definition weights_add :: "matrix \<Rightarrow> real list list \<Rightarrow> matrix" where
  "weights_add weights upd =
     weights\<lparr>entries :=
       map (\<lambda>d. map (\<lambda>j. entries weights ! d ! j + upd ! d ! j) [0..<ncol weights])
           [0..<nrow weights]\<rparr>"

subsection \<open>Initialisation\<close>

text \<open>
  The branch on \<^verbatim>\<open>init\<close>:
  \<^verbatim>\<open>
  if init == 'random':
      if somz:
          self._weights = (rng.rand(D, self._mapgeom.size)) + self.data[0,0]
      else:
          self._weights = np.std(self.data, axis=0, keepdims=True).T
                          * rng.normal(size=(D, self._mapgeom.size))
  else:
      raise ValueError('Invalid init "{}".'.format(init))
  \<close>
  \<^verbatim>\<open>self.data[0,0]\<close> raises \<^verbatim>\<open>IndexError\<close> when the data has no row or no column.
\<close>

definition init_weights ::
  "'g rng_ops \<Rightarrow> 'g \<Rightarrow> fit_args \<Rightarrow> nat \<Rightarrow> py_error + (matrix \<times> 'g)" where
  "init_weights ops rng args msize =
     (let data = a_data args; D = ncol data
      in if a_init args = ''random'' then
           (if a_somz args then
              (let (r, rng1) = rng_rand ops rng D msize
               in if nrow data = 0 \<or> ncol data = 0 then Inl IndexError
                  else Inr (\<lparr>nrow = D, ncol = msize,
                             entries = map (\<lambda>d. map (\<lambda>j. r ! d ! j + entries data ! 0 ! 0)
                                                     [0..<msize]) [0..<D]\<rparr>, rng1))
            else
              (let sd = np_std_axis0 data;
                   (r, rng1) = rng_normal ops rng D msize
               in Inr (\<lparr>nrow = D, ncol = msize,
                         entries = map (\<lambda>d. map (\<lambda>j. sd ! d * r ! d ! j) [0..<msize]) [0..<D]\<rparr>,
                       rng1)))
         else Inl ValueError)"

subsection \<open>Mode B: \<^verbatim>\<open>somz=True\<close>\<close>

text \<open>
  The body of the loop over the samples of an epoch:
  \<^verbatim>\<open>
  dx = x.reshape(-1, 1) - self._weights
  distsq = np.sum(dx ** 2, axis=0)
  best = np.argmin(distsq)
  h = np.exp(-(self._mapgeom.separations[best] ** 2) / sigma ** 2)
  loss += np.sqrt(np.sum(dx ** 2, axis=0))[best]
  self._weights += alpha * h * dx
  \<close>
  The state is the training state and the local \<^verbatim>\<open>loss\<close>.
\<close>

definition somz_sample ::
  "real \<Rightarrow> real \<Rightarrow> 'g train_state \<times> real \<Rightarrow> real list \<Rightarrow> ('g train_state \<times> real) run" where
  "somz_sample alpha sigma sl x =
     (let st = fst sl; loss = snd sl;
          weights = t_weights st; W = ncol weights;
          dx = data_diff x weights;
          distsq = np_sum_axis0 W (map (map (\<lambda>v. v\<^sup>2)) dx)
      in case np_argmin distsq of
           Inl e \<Rightarrow> Raised e sl
         | Inr best \<Rightarrow>
             (let (sep, geom1) = separations (t_geom st);
                  h = map (\<lambda>s. exp (- (s\<^sup>2) / sigma\<^sup>2)) (sep ! best);
                  loss1 = loss + map sqrt (np_sum_axis0 W (map (map (\<lambda>v. v\<^sup>2)) dx)) ! best;
                  upd = map (\<lambda>d. map (\<lambda>j. alpha * h ! j * dx ! d ! j) [0..<W])
                            [0..<nrow weights]
              in Done (st\<lparr>t_weights := weights_add weights upd, t_geom := geom1,
                          t_updates := Suc (t_updates st)\<rparr>, loss1)))"

text \<open>
  The learning rate and the neighbourhood width of Mode B, as functions of the step
  counter: \<^verbatim>\<open>alpha = aps * (ape / aps) ** (tt / nt)\<close> and
  \<^verbatim>\<open>sigma = sigma0 * (sigma_single / sigma0) ** (tt / nt)\<close>, with \<^verbatim>\<open>aps = 0.8\<close> and
  \<^verbatim>\<open>ape = 0.5\<close>.
\<close>

definition aps :: real where "aps = 8 / 10"

definition ape :: real where "ape = 5 / 10"

definition somz_alpha :: "int \<Rightarrow> int \<Rightarrow> real" where
  "somz_alpha tt nt = aps * py_pow (ape / aps) (real_of_int tt / real_of_int nt)"

definition somz_sigma :: "real \<Rightarrow> real \<Rightarrow> int \<Rightarrow> int \<Rightarrow> real" where
  "somz_sigma sigma0 sigma_single tt nt =
     sigma0 * py_pow (sigma_single / sigma0) (real_of_int tt / real_of_int nt)"

text \<open>
  The body of the loop over the epochs of Mode B:
  \<^verbatim>\<open>
  loss = 0.
  alpha = aps * (ape / aps) ** (tt / nt)
  sigma = sigma0 * (sigma_single / sigma0) ** (tt / nt)
  batch_idx = rng.choice(N, batch_size)
  for j, x in enumerate(self.data[batch_idx]):
      ...
  self._loss[it] = loss
  \<close>
  The state is the training state and the local \<^verbatim>\<open>tt\<close>. No statement of the loop assigns
  \<^verbatim>\<open>tt\<close>: the only \<^verbatim>\<open>tt += 1\<close> of the source is inside the string literal that follows
  the loop body. \<^verbatim>\<open>tt / nt\<close> divides Python integers and raises on \<^verbatim>\<open>nt = 0\<close>.
\<close>

definition somz_epoch ::
  "'g rng_ops \<Rightarrow> matrix \<Rightarrow> int \<Rightarrow> real \<Rightarrow> real \<Rightarrow> int \<Rightarrow>
   'g train_state \<times> int \<Rightarrow> nat \<Rightarrow> ('g train_state \<times> int) run" where
  "somz_epoch ops data batch_size sigma0 sigma_single nt stt it =
     (let st = fst stt; tt = snd stt;
          loss = 0
      in if nt = 0 then Raised ZeroDivisionError stt
         else
           (let alpha = somz_alpha tt nt;
                sigma = somz_sigma sigma0 sigma_single tt nt
            in case choice ops (t_rng st) (nrow data) batch_size of
                 Inl e \<Rightarrow> Raised e stt
               | Inr (batch_idx, rng1) \<Rightarrow>
                   (let st1 = st\<lparr>t_rng := rng1\<rparr>
                    in case take_rows data batch_idx of
                         Inl e \<Rightarrow> Raised e (st1, tt)
                       | Inr xs \<Rightarrow>
                           (case run_loop (somz_sample alpha sigma) xs (st1, loss) of
                              Raised e (st2, loss2) \<Rightarrow> Raised e (st2, tt)
                            | Done (st2, loss2) \<Rightarrow>
                                Done (st2\<lparr>t_loss := (t_loss st2)[it := loss2]\<rparr>, tt)))))"

text \<open>
  Mode B, from \<^verbatim>\<open>tt = 0\<close> to the end of the loop over the epochs:
  \<^verbatim>\<open>
  tt = 0
  sigma0 = np.max(self._mapgeom.separations)
  sigma_single = np.min(self._mapgeom.separations[np.where(self._mapgeom.separations > 0.)])
  aps = 0.8
  ape = 0.5
  nt = maxiter * N
  for it in range(maxiter):
      ...
  \<close>
  It returns the training state and the final value of \<^verbatim>\<open>tt\<close>.
\<close>

definition fit_somz ::
  "'g rng_ops \<Rightarrow> fit_args \<Rightarrow> int \<Rightarrow> 'g train_state \<Rightarrow> ('g train_state \<times> int) run" where
  "fit_somz ops args batch_size st0 =
     (let tt = 0;
          (sep1, geom1) = separations (t_geom st0);
          st1 = st0\<lparr>t_geom := geom1\<rparr>
      in case np_max (concat sep1) of
           Inl e \<Rightarrow> Raised e (st1, tt)
         | Inr sigma0 \<Rightarrow>
             (let (sep2, geom2) = separations geom1;
                  (sep3, geom3) = separations geom2;
                  st3 = st0\<lparr>t_geom := geom3\<rparr>
              in case np_min (map fst (filter (\<lambda>vm. snd vm > 0) (zip (concat sep2) (concat sep3)))) of
                   Inl e \<Rightarrow> Raised e (st3, tt)
                 | Inr sigma_single \<Rightarrow>
                     (let nt = a_maxiter args * int (nrow (a_data args))
                      in run_loop (somz_epoch ops (a_data args) batch_size sigma0 sigma_single nt)
                           [0..<nat (a_maxiter args)] (st3, tt))))"

subsection \<open>Mode A: \<^verbatim>\<open>somz=False\<close>\<close>

text \<open>
  The body of the loop over the samples of an epoch:
  \<^verbatim>\<open>
  dx = x.reshape(-1, 1) - self._weights
  distsq = np.sum(dx ** 2, axis=0)
  bmu = np.argmin(distsq)
  loss += np.sqrt(distsq[bmu])
  dz = self._mapgeom.separations[bmu]
  self._weights += learn_rate * np.exp(-0.5 * (dz / gauss_width) ** 2) * dx
  \<close>
\<close>

definition somviz_sample ::
  "real \<Rightarrow> real \<Rightarrow> 'g train_state \<times> real \<Rightarrow> real list \<Rightarrow> ('g train_state \<times> real) run" where
  "somviz_sample learn_rate gauss_width sl x =
     (let st = fst sl; loss = snd sl;
          weights = t_weights st; W = ncol weights;
          dx = data_diff x weights;
          distsq = np_sum_axis0 W (map (map (\<lambda>v. v\<^sup>2)) dx)
      in case np_argmin distsq of
           Inl e \<Rightarrow> Raised e sl
         | Inr bmu \<Rightarrow>
             (let loss1 = loss + sqrt (distsq ! bmu);
                  (sep, geom1) = separations (t_geom st);
                  dz = sep ! bmu;
                  k = map (\<lambda>s. exp (- (1 / 2) * (s / gauss_width)\<^sup>2)) dz;
                  upd = map (\<lambda>d. map (\<lambda>j. learn_rate * k ! j * dx ! d ! j) [0..<W])
                            [0..<nrow weights]
              in Done (st\<lparr>t_weights := weights_add weights upd, t_geom := geom1,
                          t_updates := Suc (t_updates st)\<rparr>, loss1)))"

text \<open>
  The body of the loop over the epochs of Mode A:
  \<^verbatim>\<open>
  loss = 0.
  learn_rate = eta ** (i / maxiter)
  gauss_width = 0.5 * large_scale ** (1 - i / maxiter)
  batch_idx = rng.choice(N, batch_size)
  for j, x in enumerate(self.data[batch_idx]):
      ...
  self._loss[i] = loss
  \<close>
  (\<^verbatim>\<open>progress\<close> is only printed.) Inside the loop \<^verbatim>\<open>maxiter\<close> is at least one.
\<close>

definition somviz_epoch ::
  "'g rng_ops \<Rightarrow> matrix \<Rightarrow> int \<Rightarrow> real \<Rightarrow> real \<Rightarrow> int \<Rightarrow>
   'g train_state \<Rightarrow> nat \<Rightarrow> 'g train_state run" where
  "somviz_epoch ops data batch_size eta large_scale maxiter st i =
     (let loss = 0;
          learn_rate = py_pow eta (real i / real_of_int maxiter);
          gauss_width = (1 / 2) * py_pow large_scale (1 - real i / real_of_int maxiter)
      in case choice ops (t_rng st) (nrow data) batch_size of
           Inl e \<Rightarrow> Raised e st
         | Inr (batch_idx, rng1) \<Rightarrow>
             (let st1 = st\<lparr>t_rng := rng1\<rparr>
              in case take_rows data batch_idx of
                   Inl e \<Rightarrow> Raised e st1
                 | Inr xs \<Rightarrow>
                     (case run_loop (somviz_sample learn_rate gauss_width) xs (st1, loss) of
                        Raised e (st2, loss2) \<Rightarrow> Raised e st2
                      | Done (st2, loss2) \<Rightarrow>
                          Done (st2\<lparr>t_loss := (t_loss st2)[i := loss2]\<rparr>))))"

text \<open>
  Mode A, from \<^verbatim>\<open>large_scale = np.mean(self._mapgeom.separations)\<close> to the end of the
  loop over the epochs.
\<close>

definition fit_somviz ::
  "'g rng_ops \<Rightarrow> fit_args \<Rightarrow> int \<Rightarrow> 'g train_state \<Rightarrow> 'g train_state run" where
  "fit_somviz ops args batch_size st0 =
     (let (sep1, geom1) = separations (t_geom st0);
          large_scale = np_mean (concat sep1);
          st1 = st0\<lparr>t_geom := geom1\<rparr>
      in run_loop (somviz_epoch ops (a_data args) batch_size (a_eta args) large_scale
                     (a_maxiter args))
           [0..<nat (a_maxiter args)] st1)"

subsection \<open>\<^verbatim>\<open>fit\<close>\<close>

text \<open>
  The start of \<^verbatim>\<open>fit\<close>: with a storage location, the directory must exist
  (\<^verbatim>\<open>assert save.exists()\<close>), and if reuse is allowed and both files are there, the
  weights (transposed) and the loss are loaded and \<^verbatim>\<open>fit\<close> returns.
\<close>

datatype restore = Restored som | Fresh | NoDir

definition fit_restore :: "som \<Rightarrow> fit_args \<Rightarrow> storage \<Rightarrow> restore" where
  "fit_restore self args fs =
     (case a_save args of
        None \<Rightarrow> Fresh
      | Some save \<Rightarrow>
          (case fs save of
             None \<Rightarrow> NoDir
           | Some dir \<Rightarrow>
               (case (a_use_saved args, weights_npy dir, loss_npy dir) of
                  (True, Some w, Some l) \<Rightarrow>
                    Restored (self\<lparr>som_weights := Some (transpose_matrix w), som_loss := Some l\<rparr>)
                | _ \<Rightarrow> Fresh)))"

text \<open>
  What a call of \<^verbatim>\<open>fit\<close> leaves behind: the exception, if it raised one; the object;
  the storage; and the number of executions of \<^verbatim>\<open>self._weights += ...\<close>.
\<close>

record fit_result =
  r_error :: "py_error option"
  r_self :: som
  r_storage :: storage
  r_updates :: nat

text \<open>
  The arrays of the training state are the arrays of the object: what the loops did to
  them, they did to \<^verbatim>\<open>self._weights\<close>, \<^verbatim>\<open>self._loss\<close> and \<^verbatim>\<open>self._mapgeom\<close>.
\<close>

definition write_back :: "som \<Rightarrow> 'g train_state \<Rightarrow> som" where
  "write_back self st =
     self\<lparr>som_weights := Some (t_weights st), som_loss := Some (t_loss st),
          som_mapgeom := t_geom st\<rparr>"

text \<open>
  The two training modes: \<^verbatim>\<open>if somz: ... else: ...\<close>. The local \<^verbatim>\<open>tt\<close> of Mode B
  ends with the branch.
\<close>

definition fit_train ::
  "'g rng_ops \<Rightarrow> fit_args \<Rightarrow> int \<Rightarrow> 'g train_state \<Rightarrow> 'g train_state run" where
  "fit_train ops args batch_size st0 =
     (if a_somz args then
        (case fit_somz ops args batch_size st0 of
           Done (st, tt) \<Rightarrow> Done st
         | Raised e (st, tt) \<Rightarrow> Raised e st)
      else fit_somviz ops args batch_size st0)"

text \<open>
  \<^verbatim>\<open>fit\<close> from \<^verbatim>\<open>rng = np.random.RandomState(seed)\<close> on, when nothing was restored:
  \<^verbatim>\<open>
  rng = np.random.RandomState(seed)
  self.data = np.asarray(data)
  N, D = self.data.shape
  batch_size = int(round(iterfrac * N))
  self._loss = np.empty(maxiter)
  \<close>
  then the initialisation of the weights, the training, and with a storage location
  \<^verbatim>\<open>np.save(save_weights, self._weights.T)\<close> and \<^verbatim>\<open>np.save(save_loss, self._loss)\<close>.
  \<^verbatim>\<open>np.empty\<close> raises on a negative length.
\<close>

definition fit_fresh ::
  "'g rng_ops \<Rightarrow> som \<Rightarrow> fit_args \<Rightarrow> (nat \<Rightarrow> real) \<Rightarrow> storage \<Rightarrow> fit_result" where
  "fit_fresh ops self args junk fs =
     (let rng = RandomState ops (a_seed args);
          self1 = self\<lparr>som_data := Some (a_data args)\<rparr>;
          N = nrow (a_data args);
          batch_size = py_round (a_iterfrac args * real N)
      in if a_maxiter args < 0 then
           \<lparr>r_error = Some ValueError, r_self = self1, r_storage = fs, r_updates = 0\<rparr>
         else
           (let loss0 = np_empty1 junk (nat (a_maxiter args));
                self2 = self1\<lparr>som_loss := Some loss0\<rparr>
            in case init_weights ops rng args (grid_size (som_mapgeom self)) of
                 Inl e \<Rightarrow> \<lparr>r_error = Some e, r_self = self2, r_storage = fs, r_updates = 0\<rparr>
               | Inr (w0, rng1) \<Rightarrow>
                   (case fit_train ops args batch_size
                           \<lparr>t_weights = w0, t_loss = loss0, t_geom = som_mapgeom self,
                            t_rng = rng1, t_updates = 0\<rparr> of
                      Raised e st \<Rightarrow>
                        \<lparr>r_error = Some e, r_self = write_back self2 st, r_storage = fs,
                         r_updates = t_updates st\<rparr>
                    | Done st \<Rightarrow>
                        (case a_save args of
                           None \<Rightarrow>
                             \<lparr>r_error = None, r_self = write_back self2 st,
                              r_storage = fs, r_updates = t_updates st\<rparr>
                         | Some save \<Rightarrow>
                             \<lparr>r_error = None, r_self = write_back self2 st,
                              r_storage = fs(save \<mapsto>
                                \<lparr>weights_npy = Some (transpose_matrix (t_weights st)),
                                 loss_npy = Some (t_loss st)\<rparr>),
                              r_updates = t_updates st\<rparr>))))"

text \<open>
  \<^verbatim>\<open>SelfOrganizingMap.fit\<close>. Beside the arguments it depends on the generator, on the
  object, on what the memory holds where \<^verbatim>\<open>np.empty(maxiter)\<close> allocates the loss array,
  and on the storage.
\<close>

definition fit ::
  "'g rng_ops \<Rightarrow> som \<Rightarrow> fit_args \<Rightarrow> (nat \<Rightarrow> real) \<Rightarrow> storage \<Rightarrow> fit_result" where
  "fit ops self args junk fs =
     (case fit_restore self args fs of
        NoDir \<Rightarrow> \<lparr>r_error = Some AssertionError, r_self = self, r_storage = fs, r_updates = 0\<rparr>
      | Restored self' \<Rightarrow> \<lparr>r_error = None, r_self = self', r_storage = fs, r_updates = 0\<rparr>
      | Fresh \<Rightarrow> fit_fresh ops self args junk fs)"

subsection \<open>Auxiliary notions for the statements about training\<close>

text \<open>The state a computation ended in, finished or not.\<close>

fun run_state :: "'s run \<Rightarrow> 's" where
  "run_state (Done s) = s"
| "run_state (Raised e s) = s"

text \<open>
  Two computations end alike: both finish, in related states, or both raise the same
  exception.
\<close>

fun rel_run :: "('s \<Rightarrow> 's \<Rightarrow> bool) \<Rightarrow> 's run \<Rightarrow> 's run \<Rightarrow> bool" where
  "rel_run R (Done a) (Done b) = R a b"
| "rel_run R (Raised e a) (Raised e' b) = (e = e')"
| "rel_run R _ _ = False"

text \<open>
  Two training states with loss arrays of length \<open>n\<close> that differ at most in the
  entries of the loss array from index \<open>k\<close> on.
\<close>

definition eq_to :: "nat \<Rightarrow> nat \<Rightarrow> 'g train_state \<Rightarrow> 'g train_state \<Rightarrow> bool" where
  "eq_to n k s s' \<longleftrightarrow>
     t_weights s = t_weights s' \<and> t_geom s = t_geom s' \<and> t_rng s = t_rng s' \<and>
     t_updates s = t_updates s' \<and> length (t_loss s) = n \<and> length (t_loss s') = n \<and>
     take k (t_loss s) = take k (t_loss s')"


text \<open>
  Two calls of \<^verbatim>\<open>fit\<close> agree: the same exception or none, and if none, the same
  prototype matrix and the same loss history.
\<close>

definition agree :: "fit_result \<Rightarrow> fit_result \<Rightarrow> bool" where
  "agree r r' \<longleftrightarrow>
     r_error r = r_error r' \<and>
     (r_error r = None \<longrightarrow>
        som_weights (r_self r) = som_weights (r_self r') \<and>
        som_loss (r_self r) = som_loss (r_self r'))"

text \<open>
  The invariant of training: the geometry is the given one and the prototype matrix is
  well formed.
\<close>

definition train_inv :: "Grid \<Rightarrow> 'g train_state \<Rightarrow> bool" where
  "train_inv G s \<longleftrightarrow> t_geom s = G \<and> wf_matrix (t_weights s)"

section \<open>Double precision\<close>

text \<open>
  The arithmetic of \<^verbatim>\<open>float64\<close>, the dtype that \<^verbatim>\<open>fit\<close> gives the prototype matrix, on
  numbers away from overflow and underflow: a result is rounded to \<open>53\<close> significant
  bits, a tie to the even neighbour (\<open>py_round\<close> rounds to an integer in that way).
  The sum adds the entries one after the other; for two entries no other order exists.
\<close>

definition f64 :: "real \<Rightarrow> real" where
  "f64 x =
     (if x = 0 then 0
      else (let e = \<lfloor>log 2 \<bar>x\<bar>\<rfloor>;
                u = 2 powr (of_int e - 52)
            in of_int (py_round (x / u)) * u))"

definition f64_arith :: arith where
  "f64_arith =
     \<lparr>a_cast = f64, a_sub = (\<lambda>x y. f64 (x - y)), a_sqr = (\<lambda>x. f64 (x * x)),
      a_sum = (\<lambda>xs. case xs of [] \<Rightarrow> 0 | x # ys \<Rightarrow> foldl (\<lambda>a b. f64 (a + b)) x ys)\<rparr>"

section \<open>Example inputs\<close>

text \<open>Concrete inputs at which the theorems below are instantiated.\<close>

definition example_grid :: Grid where
  "example_grid = \<lparr>grid_size = 2, grid_separations = None, grid_shape = [2],
                    grid_wrap = [False], grid_metric = ''L2''\<rparr>"

definition example_weights :: matrix where
  "example_weights = \<lparr>nrow = 1, ncol = 2, entries = [[0, 2]]\<rparr>"

definition example_som :: som where
  "example_som = \<lparr>som_mapgeom = example_grid, som_weights = Some example_weights,
                   som_loss = None, som_data = None\<rparr>"

definition example_data :: matrix where
  "example_data = \<lparr>nrow = 3, ncol = 1, entries = [[0], [3], [1]]\<rparr>"

text \<open>
  Two prototypes far from the origin that differ in their second feature only, and the
  one data row at the origin: prototype 0 is \<open>(1073741824, 1)\<close>, prototype 1 is
  \<open>(1073741824, 0)\<close>.
\<close>

definition far_weights :: matrix where
  "far_weights = \<lparr>nrow = 2, ncol = 2, entries = [[1073741824, 1073741824], [1, 0]]\<rparr>"

definition far_som :: som where
  "far_som = \<lparr>som_mapgeom = example_grid, som_weights = Some far_weights,
               som_loss = None, som_data = None\<rparr>"

definition far_data :: matrix where
  "far_data = \<lparr>nrow = 1, ncol = 2, entries = [[0, 0]]\<rparr>"

definition empty_data :: matrix where
  "empty_data = \<lparr>nrow = 0, ncol = 1, entries = []\<rparr>"

definition example_junk :: bmu_junk where
  "example_junk = \<lparr>junk_bmu = (\<lambda>_. 7), junk_buf = (\<lambda>_. 5), junk_distsq = (\<lambda>_. 9)\<rparr>"

definition other_junk :: bmu_junk where
  "other_junk = \<lparr>junk_bmu = (\<lambda>_. - 1), junk_buf = (\<lambda>k. real k), junk_distsq = (\<lambda>_. 0)\<rparr>"

text \<open>
  A generator for the examples: the seed's absolute value is the state, every call
  advances it by one, \<^verbatim>\<open>rand\<close> draws one half everywhere, \<^verbatim>\<open>normal\<close> draws one
  everywhere, and \<^verbatim>\<open>choice\<close> draws the state modulo the population size.
\<close>

definition example_ops :: "nat rng_ops" where
  "example_ops =
     \<lparr>RandomState = (\<lambda>seed. nat \<bar>seed\<bar>),
      rng_rand = (\<lambda>g D W. (replicate D (replicate W (1 / 2)), Suc g)),
      rng_normal = (\<lambda>g D W. (replicate D (replicate W 1), Suc g)),
      rng_choice = (\<lambda>g N k. (replicate k (g mod N), Suc g))\<rparr>"


definition train_data :: matrix where
  "train_data = \<lparr>nrow = 2, ncol = 1, entries = [[0], [2]]\<rparr>"

definition no_storage :: storage where
  "no_storage = (\<lambda>_. None)"

definition zero_args :: fit_args where
  "zero_args = (default_args train_data)\<lparr>a_maxiter := 0, a_somz := True\<rparr>"

definition one_args :: fit_args where
  "one_args = (default_args train_data)\<lparr>a_maxiter := 1, a_iterfrac := 1 / 2\<rparr>"

definition example_som0 :: som where
  "example_som0 = som_init example_grid"

text \<open>
  A run of Mode B on which the schedule ought to move: the grid of three nodes in a row,
  two samples, two epochs of one sample each (\<open>nt = 4\<close>, largest separation \<open>2\<close>,
  smallest positive separation \<open>1\<close>).
\<close>

definition grid3 :: Grid where
  "grid3 = \<lparr>grid_size = 3, grid_separations = None, grid_shape = [3],
             grid_wrap = [False], grid_metric = ''L2''\<rparr>"

definition decay_args :: fit_args where
  "decay_args = (default_args train_data)\<lparr>a_maxiter := 2, a_iterfrac := 1 / 2, a_somz := True\<rparr>"

definition decay_state :: "nat train_state" where
  "decay_state =
     \<lparr>t_weights = \<lparr>nrow = 1, ncol = 3, entries = [[1 / 2, 1 / 2, 1 / 2]]\<rparr>, t_loss = [0, 0],
      t_geom = grid3, t_rng = 124, t_updates = 0\<rparr>"

section \<open>Properties of the grid\<close>

lemma unravel_length: "length (unravel shape i) = length shape"
  by (induction shape arbitrary: i) auto

lemma unravel_bound:
  "i < prod_list shape \<Longrightarrow> k < length shape \<Longrightarrow> unravel shape i ! k < shape ! k"
proof (induction shape arbitrary: i k)
  case Nil
  then show ?case by simp
next
  case (Cons n ns)
  from Cons.prems(1) have pos: "0 < prod_list ns"
    by (cases "prod_list ns = 0") auto
  show ?case
  proof (cases k)
    case 0
    from Cons.prems(1) have "i < n * prod_list ns" by simp
    then have "i div prod_list ns < n" by (rule less_mult_imp_div_less)
    with 0 show ?thesis by simp
  next
    case (Suc k')
    have "i mod prod_list ns < prod_list ns" using pos by simp
    with Cons.IH[of "i mod prod_list ns" k'] Cons.prems(2) Suc show ?thesis by simp
  qed
qed

lemma axis_dx_entry:
  "a < nk \<Longrightarrow> b < nk \<Longrightarrow> axis_dx nk wrapk ! a ! b = wrap_entry (int nk) wrapk \<bar>int a - int b\<bar>"
  by (simp add: axis_dx_def)

lemma wrap_entry_nonneg: "a < nk \<Longrightarrow> b < nk \<Longrightarrow> 0 \<le> wrap_entry (int nk) w \<bar>int a - int b\<bar>"
  by (auto simp: wrap_entry_def)

lemma wrap_entry_diag: "wrap_entry (int nk) w 0 = 0"
  by (auto simp: wrap_entry_def)

lemma broadcast_axis_entry:
  "i < prod_list shape \<Longrightarrow> j < prod_list shape \<Longrightarrow>
   broadcast_axis shape k dxk ! i ! j = dxk ! (unravel shape i ! k) ! (unravel shape j ! k)"
  by (simp add: broadcast_axis_def)

lemma broadcast_axis_length: "length (broadcast_axis shape k dxk) = prod_list shape"
  by (simp add: broadcast_axis_def)

lemma broadcast_axis_row_length:
  "i < prod_list shape \<Longrightarrow> length (broadcast_axis shape k dxk ! i) = prod_list shape"
  by (simp add: broadcast_axis_def)

lemma broadcast_axis_dx:
  assumes "i < prod_list shape" "j < prod_list shape" "k < length shape"
  shows "broadcast_axis shape k (axis_dx (shape ! k) wrapk) ! i ! j = axis_term shape k wrapk i j"
  using assms unravel_bound[of i shape k] unravel_bound[of j shape k]
  by (simp add: broadcast_axis_entry axis_dx_entry axis_term_def)

lemma axis_term_sym: "axis_term shape k w i j = axis_term shape k w j i"
  by (simp add: axis_term_def abs_minus_commute)

lemma axis_term_nonneg:
  "i < prod_list shape \<Longrightarrow> j < prod_list shape \<Longrightarrow> k < length shape \<Longrightarrow>
   0 \<le> axis_term shape k w i j"
  using unravel_bound[of i shape k] unravel_bound[of j shape k]
  by (simp add: axis_term_def wrap_entry_nonneg)

lemma axis_term_diag: "axis_term shape k w i i = 0"
  by (simp add: axis_term_def wrap_entry_diag)

lemma add_axis_shape:
  assumes "sep_inv (prod_list shape) M" 
  shows "length (add_axis metric shape M (k, w)) = prod_list shape \<and>
         (\<forall>i<prod_list shape. length (add_axis metric shape M (k, w) ! i) = prod_list shape)"
  using assms
  by (auto simp: add_axis_def sep_inv_def Let_def broadcast_axis_length broadcast_axis_row_length)

lemma add_axis_entry:
  assumes "sep_inv (prod_list shape) M" "k < length shape"
    "i < prod_list shape" "j < prod_list shape"
  shows "add_axis metric shape M (k, w) ! i ! j =
     (if metric = ''L2'' then M ! i ! j + (real_of_int (axis_term shape k w i j))\<^sup>2
      else if metric = ''L1'' then M ! i ! j + real_of_int (axis_term shape k w i j)
      else if metric = ''L0'' then max (M ! i ! j) (real_of_int (axis_term shape k w i j))
      else M ! i ! j)"
  using assms
  by (simp add: add_axis_def sep_inv_def Let_def broadcast_axis_length broadcast_axis_row_length
      broadcast_axis_dx)

lemma add_axis_inv:
  assumes "sep_inv (prod_list shape) M" "k < length shape"
  shows "sep_inv (prod_list shape) (add_axis metric shape M (k, w))"
proof -
  let ?s = "prod_list shape"
  let ?M' = "add_axis metric shape M (k, w)"
  have sh: "length ?M' = ?s" "\<forall>i<?s. length (?M' ! i) = ?s"
    using add_axis_shape[OF assms(1)] by auto
  have sym: "\<forall>i<?s. \<forall>j<?s. ?M' ! i ! j = ?M' ! j ! i \<and> 0 \<le> ?M' ! i ! j"
  proof (intro allI impI)
    fix i j assume ij: "i < ?s" "j < ?s"
    have m: "M ! i ! j = M ! j ! i" "0 \<le> M ! i ! j"
      using assms(1) ij by (auto simp: sep_inv_def)
    have t: "0 \<le> axis_term shape k w i j" using ij assms(2) by (simp add: axis_term_nonneg)
    show "?M' ! i ! j = ?M' ! j ! i \<and> 0 \<le> ?M' ! i ! j"
      using m t ij
      by (simp add: add_axis_entry[OF assms] add_axis_entry[OF assms(1,2) ij(2) ij(1)]
          axis_term_sym[of shape k w j i] le_max_iff_disj)
  qed
  have diag: "\<forall>i<?s. ?M' ! i ! i = 0"
  proof (intro allI impI)
    fix i assume i: "i < ?s"
    have "M ! i ! i = 0" using assms(1) i by (auto simp: sep_inv_def)
    then show "?M' ! i ! i = 0"
      by (simp add: add_axis_entry[OF assms i i] axis_term_diag)
  qed
  show ?thesis unfolding sep_inv_def using sh sym diag by blast
qed

lemma fold_add_axis_inv:
  assumes "sep_inv (prod_list shape) M" "\<forall>kw \<in> set kws. fst kw < length shape"
  shows "sep_inv (prod_list shape) (fold (\<lambda>kw s. add_axis metric shape s kw) kws M)"
  using assms
proof (induction kws arbitrary: M)
  case Nil
  then show ?case by simp
next
  case (Cons kw kws)
  obtain k w where kw: "kw = (k, w)" by (cases kw)
  with Cons.prems have "sep_inv (prod_list shape) (add_axis metric shape M kw)"
    by (simp add: add_axis_inv)
  with Cons show ?case by simp
qed

lemma zeros_inv: "sep_inv s (replicate s (replicate s 0))"
  by (simp add: sep_inv_def)

lemma enumerate_fst_bound: "kw \<in> set (enumerate 0 xs) \<Longrightarrow> fst kw < length xs"
  by (auto simp: enumerate_eq_zip in_set_zip)

lemma sqrt_inv: "sep_inv s M \<Longrightarrow> sep_inv s (map (map sqrt) M)"
  by (simp add: sep_inv_def)

lemma calculate_separations_inv:
  assumes "length (grid_wrap g) = length (grid_shape g)"
  shows "sep_inv (prod_list (grid_shape g)) (calculate_separations g)"
proof -
  have "\<forall>kw \<in> set (enumerate 0 (grid_wrap g)). fst kw < length (grid_shape g)"
    using enumerate_fst_bound[of _ "grid_wrap g"] assms by auto
  then show ?thesis
    unfolding calculate_separations_def Let_def
    by (simp add: fold_add_axis_inv zeros_inv sqrt_inv)
qed


lemma wrap_entry_ring:
  assumes "0 \<le> d" "d < n"
  shows "wrap_entry n True d = min d (n - d)"
  using assms by (auto simp: wrap_entry_def min_def)

lemma ring_axis_term:
  "axis_term [n] 0 True i j = wrap_entry (int n) True \<bar>int i - int j\<bar>"
  by (simp add: axis_term_def)

subsection \<open>The metric is validated at construction\<close>

text \<open>
  Claim C9. Constructing a \<^verbatim>\<open>Grid\<close> with a metric outside \<open>L0\<close>, \<open>L1\<close>, \<open>L2\<close> raises
  \<^verbatim>\<open>ValueError\<close>, whatever the signature (no valid metric is substituted), and with a
  metric among the three the construction returns a grid that carries that metric.
\<close>

theorem Grid_init_metric:
  "(metric \<notin> {''L0'', ''L1'', ''L2''} \<longrightarrow> Grid_init signature metric = Inl ValueError) \<and>
   (metric \<in> {''L0'', ''L1'', ''L2''} \<longrightarrow>
      (\<exists>g. Grid_init signature metric = Inr g \<and> grid_metric g = metric))"
  by (simp add: Grid_init_def Let_def)

theorem Grid_init_metric_witness:
  "''L3'' \<notin> {''L0'', ''L1'', ''L2''} \<and> Grid_init [3, - 4] ''L3'' = Inl ValueError \<and>
   ''L1'' \<in> {''L0'', ''L1'', ''L2''} \<and>
   (\<exists>g. Grid_init [3, - 4] ''L1'' = Inr g \<and> grid_metric g = ''L1'')"
  using Grid_init_metric[of "''L3''" "[3, - 4]"] Grid_init_metric[of "''L1''" "[3, - 4]"]
  by simp

subsection \<open>The separations matrix is symmetric, non-negative, zero on the diagonal\<close>

text \<open>
  Claim C5. For every grid that \<^verbatim>\<open>Grid.__init__\<close> constructs (any signature, that is
  any shape and any wrap flags, and any of the three metrics), the matrix that the
  property \<^verbatim>\<open>separations\<close> returns satisfies, for all node indices \<open>i\<close> and \<open>j\<close> below
  the size: the entries at \<open>(i, j)\<close> and \<open>(j, i)\<close> are equal, the entry at \<open>(i, j)\<close>
  is not negative, and the entry at \<open>(i, i)\<close> is zero.
\<close>

theorem separations_symmetric_nonneg_zero_diag:
  assumes "Grid_init signature metric = Inr g"
    and "i < grid_size g" and "j < grid_size g"
  shows "fst (separations g) ! i ! j = fst (separations g) ! j ! i \<and>
         0 \<le> fst (separations g) ! i ! j \<and>
         fst (separations g) ! i ! i = 0"
proof -
  from assms(1) have g: "grid_separations g = None" "grid_size g = prod_list (grid_shape g)"
    "length (grid_wrap g) = length (grid_shape g)"
    by (auto simp: Grid_init_def Let_def split: if_splits)
  have "sep_inv (grid_size g) (fst (separations g))"
    using calculate_separations_inv[OF g(3)] g(1,2) by (simp add: separations_def Let_def)
  with assms(2,3) show ?thesis by (simp add: sep_inv_def)
qed

theorem separations_symmetric_nonneg_zero_diag_witness:
  "Grid_init [2, - 3] ''L2'' = Inr
      \<lparr>grid_size = 6, grid_separations = None, grid_shape = [2, 3],
       grid_wrap = [False, True], grid_metric = ''L2''\<rparr> \<and> (1::nat) < 6 \<and> (5::nat) < 6 \<and>
   fst (separations \<lparr>grid_size = 6, grid_separations = None, grid_shape = [2, 3],
       grid_wrap = [False, True], grid_metric = ''L2''\<rparr>) ! 1 ! 5 =
   fst (separations \<lparr>grid_size = 6, grid_separations = None, grid_shape = [2, 3],
       grid_wrap = [False, True], grid_metric = ''L2''\<rparr>) ! 5 ! 1 \<and>
   0 \<le> fst (separations \<lparr>grid_size = 6, grid_separations = None, grid_shape = [2, 3],
       grid_wrap = [False, True], grid_metric = ''L2''\<rparr>) ! 1 ! 5 \<and>
   fst (separations \<lparr>grid_size = 6, grid_separations = None, grid_shape = [2, 3],
       grid_wrap = [False, True], grid_metric = ''L2''\<rparr>) ! 1 ! 1 = 0"
proof -
  have h: "Grid_init [2, - 3] ''L2'' = Inr
      \<lparr>grid_size = 6, grid_separations = None, grid_shape = [2, 3],
       grid_wrap = [False, True], grid_metric = ''L2''\<rparr>"
    by (simp add: Grid_init_def)
  show ?thesis
    using h separations_symmetric_nonneg_zero_diag[OF h, of 1 5] by simp
qed

subsection \<open>The wrapping one-dimensional grid is a ring\<close>

text \<open>
  Claim C6. For the wrapping one-dimensional grid of \<open>n\<close> nodes (\<^verbatim>\<open>Grid(-n)\<close> with
  \<open>n\<close> at least one) and any of the three metrics, the separation of the nodes \<open>i\<close> and
  \<open>j\<close> is \<open>min (|i - j|) (n - |i - j|)\<close>, the shorter way around the ring; this
  includes \<open>|i - j|\<close> equal to half of an even \<open>n\<close>, where both ways have the same
  length.
\<close>

theorem ring_separations:
  assumes "1 \<le> n" and "Grid_init [- int n] metric = Inr g"
    and "i < n" and "j < n"
  shows "fst (separations g) ! i ! j =
         real_of_int (min \<bar>int i - int j\<bar> (int n - \<bar>int i - int j\<bar>))"
proof -
  from assms(1,2) have g: "grid_separations g = None" "grid_shape g = [n]"
    "grid_wrap g = [True]" "grid_metric g = metric"
    and m: "metric = ''L0'' \<or> metric = ''L1'' \<or> metric = ''L2''"
    by (auto simp: Grid_init_def Let_def split: if_splits)
  let ?d = "\<bar>int i - int j\<bar>"
  have d: "0 \<le> ?d" "?d < int n" using assms(3,4) by auto
  have t: "axis_term [n] 0 True i j = min ?d (int n - ?d)"
    using wrap_entry_ring[OF d] by (simp add: ring_axis_term)
  have z: "sep_inv (prod_list [n]) (replicate n (replicate n 0))"
    using zeros_inv[of n] by simp
  have e: "add_axis metric [n] (replicate n (replicate n 0)) (0, True) ! i ! j =
     (if metric = ''L2'' then (real_of_int (min ?d (int n - ?d)))\<^sup>2
      else real_of_int (min ?d (int n - ?d)))"
    using add_axis_entry[OF z, of 0 i j metric True] assms(3,4) m t by auto
  let ?A = "add_axis metric [n] (replicate n (replicate n 0)) (0, True)"
  let ?r = "real_of_int (min ?d (int n - ?d))"
  have nn: "0 \<le> ?r" using d by simp
  have len: "length ?A = n" "length (?A ! i) = n"
    using add_axis_shape[OF z, of metric 0 True] assms(3) by auto
  have fo: "fold (\<lambda>kw s. add_axis metric [n] s kw) (enumerate 0 [True])
               (replicate n (replicate n 0)) = ?A"
    by simp
  have cs: "calculate_separations g ! i ! j =
      (if metric = ''L2'' then sqrt (?A ! i ! j) else ?A ! i ! j)"
    unfolding calculate_separations_def Let_def g prod_list.Cons prod_list.Nil mult_1_right fo
    using len assms(3,4) by (cases "metric = ''L2''") auto
  have "calculate_separations g ! i ! j = ?r"
  proof (cases "metric = ''L2''")
    case True
    then have "calculate_separations g ! i ! j = sqrt (?r\<^sup>2)" using cs e by simp
    also have "\<dots> = ?r" by (simp only: real_sqrt_abs abs_of_nonneg[OF nn])
    finally show ?thesis .
  next
    case False
    then show ?thesis using cs e by simp
  qed
  then show ?thesis using g(1) by (simp add: separations_def Let_def)
qed

theorem ring_separations_witness:
  "(1::nat) \<le> 4 \<and> Grid_init [- int 4] ''L2'' = Inr
      \<lparr>grid_size = 4, grid_separations = None, grid_shape = [4], grid_wrap = [True],
       grid_metric = ''L2''\<rparr> \<and> (1::nat) < 4 \<and> (3::nat) < 4 \<and>
   fst (separations \<lparr>grid_size = 4, grid_separations = None, grid_shape = [4],
       grid_wrap = [True], grid_metric = ''L2''\<rparr>) ! 1 ! 3 = 2"
proof -
  have h: "Grid_init [- int 4] ''L2'' = Inr
      \<lparr>grid_size = 4, grid_separations = None, grid_shape = [4], grid_wrap = [True],
       grid_metric = ''L2''\<rparr>"
    by (simp add: Grid_init_def)
  show ?thesis
    using h ring_separations[OF _ h, of 1 3] by simp
qed

section \<open>Properties of the search for the best matching unit\<close>

lemma argmin_less: "xs \<noteq> [] \<Longrightarrow> argmin xs < length xs"
  by (induction xs rule: argmin.induct) (auto simp: Let_def)

lemma argmin_le: "j < length xs \<Longrightarrow> xs ! argmin xs \<le> xs ! j"
proof (induction xs arbitrary: j rule: argmin.induct)
  case 1
  then show ?case by simp
next
  case (2 x)
  then show ?case by simp
next
  case (3 x y ys)
  let ?k = "argmin (y # ys)"
  show ?case
  proof (cases j)
    case 0
    then show ?thesis by (auto simp: Let_def)
  next
    case (Suc j')
    with 3 have "(y # ys) ! ?k \<le> (y # ys) ! j'" by simp
    with Suc show ?thesis by (auto simp: Let_def)
  qed
qed

lemma argmin_first: "j < argmin xs \<Longrightarrow> xs ! argmin xs < xs ! j"
proof (induction xs arbitrary: j rule: argmin.induct)
  case 1
  then show ?case by simp
next
  case (2 x)
  then show ?case by simp
next
  case (3 x y ys)
  let ?k = "argmin (y # ys)"
  from "3.prems" have nz: "\<not> x \<le> (y # ys) ! ?k" and k: "argmin (x # y # ys) = Suc ?k"
    by (auto simp: Let_def split: if_splits)
  show ?case
  proof (cases j)
    case 0
    with nz k show ?thesis by simp
  next
    case (Suc j')
    with "3.prems" k have "j' < ?k" by simp
    with 3 have "(y # ys) ! ?k < (y # ys) ! j'" by simp
    with Suc k show ?thesis by simp
  qed
qed

lemma sum_axis0_length: "length (sum_axis0 ar W m) = W"
  by (simp add: sum_axis0_def)

lemma row_distsq_length: "length (row_distsq ar weights x) = ncol weights"
  by (simp add: row_distsq_def sum_axis0_length)

lemma row_distsq_entry:
  assumes "wf_matrix weights" "length x = nrow weights" "j < ncol weights"
  shows "row_distsq ar weights x ! j =
         a_sum ar (map (\<lambda>d. a_sqr ar (a_sub ar (a_cast ar (x ! d)) (entries weights ! d ! j)))
                       [0..<nrow weights])"
proof -
  let ?W = "ncol weights"
  define rs where
    "rs = map (map (a_sqr ar))
            (map2 (map2 (a_sub ar)) (map (\<lambda>v. replicate ?W (a_cast ar v)) x) (entries weights))"
  have len: "length rs = nrow weights" using assms by (simp add: wf_matrix_def rs_def)
  have ent: "rs ! d ! j = a_sqr ar (a_sub ar (a_cast ar (x ! d)) (entries weights ! d ! j))"
    if "d < nrow weights" for d
  proof -
    have "length (entries weights ! d) = ?W" using assms(1) that by (simp add: wf_matrix_def)
    then show ?thesis using that assms by (simp add: wf_matrix_def rs_def)
  qed
  have m: "map (\<lambda>d. rs ! d ! j) [0..<nrow weights] =
        map (\<lambda>d. a_sqr ar (a_sub ar (a_cast ar (x ! d)) (entries weights ! d ! j)))
            [0..<nrow weights]"
    by (rule map_cong) (simp_all add: ent)
  have l: "map (\<lambda>r. r ! j) rs = map (\<lambda>d. rs ! d ! j) [0..<length rs]"
    by (rule nth_equalityI) auto
  have "row_distsq ar weights x ! j = a_sum ar (map (\<lambda>r. r ! j) rs)"
    using assms(3) by (simp add: row_distsq_def sum_axis0_def rs_def)
  also have "\<dots> = a_sum ar (map (\<lambda>d. rs ! d ! j) [0..<nrow weights])"
    by (simp only: l len)
  also have "\<dots> = a_sum ar (map (\<lambda>d. a_sqr ar (a_sub ar (a_cast ar (x ! d))
                                      (entries weights ! d ! j))) [0..<nrow weights])"
    by (simp only: m)
  finally show ?thesis .
qed

lemma batch_distsq:
  assumes "length A = n"
  shows "take n (map (sum_axis0 ar W) (map (map (map (a_sqr ar)))
           (map (\<lambda>m. map2 (map2 (a_sub ar)) m (entries weights))
              (map (map (\<lambda>v. replicate (ncol weights) (a_cast ar v))) A @ rest)))) =
         map (\<lambda>x. sum_axis0 ar W (map (map (a_sqr ar))
               (map2 (map2 (a_sub ar)) (map (\<lambda>v. replicate (ncol weights) (a_cast ar v)) x) (entries weights)))) A"
  using assms by (simp add: comp_def)

lemma find_bmu_batch_ok:
  assumes wf: "wf_matrix data" and W: "0 < ncol weights" and b: "0 < b"
    and ilo: "k * b < nrow data"
    and buf: "length (l_buf st) = min (nrow data) b"
  shows "\<exists>st'. find_bmu_batch ar data weights b k st = Inr st' \<and>
           l_bmu st' = take (k * b) (l_bmu st) @
              map (bmu_of ar weights) (take (min (k * b + b) (nrow data) - k * b) (drop (k * b) (entries data))) @
              drop (min (k * b + b) (nrow data)) (l_bmu st) \<and>
           length (l_buf st') = min (nrow data) b"
proof -
  let ?N = "nrow data"
  let ?n = "min (k * b + b) ?N - k * b"
  let ?A = "take ?n (drop (k * b) (entries data))"
  have lenA: "length ?A = ?n" using wf ilo by (auto simp: wf_matrix_def)
  have n: "?n \<le> min ?N b" using ilo by auto
  have len1: "?n + (length (l_buf st) - ?n) = min ?N b" using n buf by simp
  have e1: "np_argmin_axis1 (ncol weights)
      (take ?n (map (sum_axis0 ar (ncol weights)) (map (map (map (a_sqr ar)))
           (map (\<lambda>m. map2 (map2 (a_sub ar)) m (entries weights))
              (map (map (\<lambda>v. replicate (ncol weights) (a_cast ar v))) ?A @ drop ?n (l_buf st)))))) =
      Inr (map (\<lambda>x. argmin (row_distsq ar weights x)) ?A)"
    unfolding batch_distsq[OF lenA] np_argmin_axis1_def row_distsq_def
    using W by (simp add: comp_def)
  have e2: "map int (map (\<lambda>x. argmin (row_distsq ar weights x)) ?A) = map (bmu_of ar weights) ?A"
    by (simp add: bmu_of_def comp_def)
  have e3: "length (map (map (map (a_sqr ar)))
           (map (\<lambda>m. map2 (map2 (a_sub ar)) m (entries weights))
              (map (map (\<lambda>v. replicate (ncol weights) (a_cast ar v))) ?A @ drop ?n (l_buf st)))) = min ?N b"
    using len1 lenA by (simp only: length_map length_append length_drop)
  show ?thesis
    unfolding find_bmu_batch_def Let_def e1 sum.case
    by (intro exI conjI, rule refl) (simp_all only: bmu_locals.simps e2 e3)
qed

lemma slice_step:
  assumes "length rows = N" "length bmu0 = N" "ilo < N"
  shows "take ilo (map F (take ilo rows) @ drop ilo bmu0) @
         map F (take (min (ilo + b) N - ilo) (drop ilo rows)) @
         drop (min (ilo + b) N) (map F (take ilo rows) @ drop ilo bmu0) =
         map F (take (ilo + b) rows) @ drop (ilo + b) bmu0"
proof -
  let ?ihi = "min (ilo + b) N"
  let ?P = "map F (take ilo rows)"
  have lp: "length ?P = ilo" using assms by simp
  have hi: "ilo \<le> ?ihi" using assms by simp
  have t: "take ilo (?P @ drop ilo bmu0) = ?P" using lp by simp
  have d: "drop ?ihi (?P @ drop ilo bmu0) = drop ?ihi bmu0"
    using lp hi by (simp add: drop_append)
  have m: "?P @ map F (take (?ihi - ilo) (drop ilo rows)) = map F (take ?ihi rows)"
    using take_add[of ilo "?ihi - ilo" rows] hi by simp
  have t2: "take ?ihi rows = take (ilo + b) rows" using assms(1) by (simp add: min_def)
  have d2: "drop ?ihi bmu0 = drop (ilo + b) bmu0" using assms(2) by (simp add: min_def)
  show ?thesis
    unfolding t d using m t2 d2 by (simp only: append_assoc[symmetric])
qed

lemma find_bmu_loop_inv:
  assumes wf: "wf_matrix data" and W: "0 < ncol weights" and b: "0 < b"
    and len0: "length bmu0 = nrow data"
    and nb: "nb * b < nrow data + b"
  shows "k \<le> nb \<Longrightarrow>
     l_bmu st = map (bmu_of ar weights) (take (k * b) (entries data)) @ drop (k * b) bmu0 \<Longrightarrow>
     length (l_buf st) = min (nrow data) b \<Longrightarrow>
     \<exists>st'. find_bmu_loop ar data weights b [k..<nb] st = Inr st' \<and>
       l_bmu st' = map (bmu_of ar weights) (take (nb * b) (entries data)) @ drop (nb * b) bmu0"
proof (induction "nb - k" arbitrary: k st)
  case 0
  then show ?case by simp
next
  case (Suc m)
  then have k: "k < nb" by simp
  have "k * b + b \<le> nb * b" using k b
    by (metis Suc_leI mult_Suc mult_le_mono1 add.commute)
  then have ilo: "k * b < nrow data" using nb by simp
  obtain st1 where s1: "find_bmu_batch ar data weights b k st = Inr st1"
    and b1: "l_bmu st1 = take (k * b) (l_bmu st) @
              map (bmu_of ar weights) (take (min (k * b + b) (nrow data) - k * b) (drop (k * b) (entries data))) @
              drop (min (k * b + b) (nrow data)) (l_bmu st)"
    and l1: "length (l_buf st1) = min (nrow data) b"
    using find_bmu_batch_ok[OF wf W b ilo Suc.prems(3)] by blast
  have rows: "length (entries data) = nrow data" using wf by (simp add: wf_matrix_def)
  have inv1: "l_bmu st1 = map (bmu_of ar weights) (take (Suc k * b) (entries data)) @ drop (Suc k * b) bmu0"
    unfolding b1 Suc.prems(2)
    using slice_step[OF rows len0 ilo, of "bmu_of ar weights" b] by (simp add: add.commute)
  have "\<exists>st'. find_bmu_loop ar data weights b [Suc k..<nb] st1 = Inr st' \<and>
       l_bmu st' = map (bmu_of ar weights) (take (nb * b) (entries data)) @ drop (nb * b) bmu0"
    using Suc.hyps(1)[of "Suc k" st1] Suc.hyps(2) k inv1 l1 by simp
  then show ?case using s1 k by (simp add: upt_conv_Cons)
qed

lemma nbatch_nat:
  assumes "1 \<le> (b::int)"
  shows "nat ((int N + b - 1) div b) = (N + nat b - 1) div nat b"
proof -
  have "int N + b - 1 = int (N + nat b - 1)" using assms by simp
  moreover have "b = int (nat b)" using assms by simp
  ultimately have "(int N + b - 1) div b = int ((N + nat b - 1) div nat b)"
    by (metis zdiv_int)
  then show ?thesis by simp
qed

lemma nbatch_bounds:
  assumes "0 < (b::nat)"
  shows "N \<le> (N + b - 1) div b * b" and "(N + b - 1) div b * b < N + b"
proof -
  have "(N + b - 1) div b * b + (N + b - 1) mod b = N + b - 1" by simp
  moreover have "(N + b - 1) mod b < b" using assms by simp
  ultimately show "N \<le> (N + b - 1) div b * b" and "(N + b - 1) div b * b < N + b"
    using assms by linarith+
qed

lemma find_bmu_snd: "snd (find_bmu ar self data b junk) = self"
  by (simp add: find_bmu_def Let_def split: option.splits sum.splits)

lemma find_bmu_loop_first_fails:
  assumes "ncol weights = 0" "0 < nb"
  shows "find_bmu_loop ar data weights b [0..<nb] st = Inl ValueError"
proof -
  have "[0..<nb] = 0 # [1..<nb]" using assms(2) by (simp add: upt_conv_Cons)
  then show ?thesis
    using assms(1) by (simp add: find_bmu_batch_def Let_def np_argmin_axis1_def)
qed

lemma find_bmu_positive:
  assumes w: "som_weights self = Some weights" and wf: "wf_matrix data"
    and D: "ncol data = nrow weights" and b: "1 \<le> b"
  shows "fst (find_bmu ar self data b junk) =
     (if 0 < nrow data \<and> ncol weights = 0 then Inl ValueError
      else Inr (map (bmu_of ar weights) (entries data)))"
proof -
  let ?N = "nrow data"
  let ?b = "nat b"
  let ?nb = "(?N + ?b - 1) div ?b"
  let ?st0 = "\<lparr>l_bmu = np_empty1 (junk_bmu junk) ?N,
               l_buf = np_empty3 (junk_buf junk) (nat (min (int ?N) b)) (ncol data) (ncol weights),
               l_distsq = np_empty2 (junk_distsq junk) (nat (min (int ?N) b)) (ncol weights)\<rparr>"
  have bpos: "0 < ?b" using b by simp
  have nb: "nat ((int ?N + b - 1) div b) = ?nb" using b by (rule nbatch_nat)
  have S: "\<not> min (int ?N) b < 0" using b by simp
  have unfold: "fst (find_bmu ar self data b junk) =
      (case find_bmu_loop ar data weights ?b [0..<?nb] ?st0 of Inl e \<Rightarrow> Inl e | Inr st \<Rightarrow> Inr (l_bmu st))"
    using w D b S by (simp add: find_bmu_def Let_def nb split: sum.splits)
  have rows: "length (entries data) = ?N" using wf by (simp add: wf_matrix_def)
  show ?thesis
  proof (cases "0 < ncol weights")
    case True
    have l0: "length (np_empty1 (junk_bmu junk) ?N) = ?N" by (simp add: np_empty1_def)
    have lb: "length (l_buf ?st0) = min ?N ?b" using b by (simp add: np_empty3_def)
    have i0: "l_bmu ?st0 = map (bmu_of ar weights) (take (0 * ?b) (entries data)) @
                drop (0 * ?b) (np_empty1 (junk_bmu junk) ?N)"
      by simp
    obtain st' where st': "find_bmu_loop ar data weights ?b [0..<?nb] ?st0 = Inr st'"
      and r: "l_bmu st' = map (bmu_of ar weights) (take (?nb * ?b) (entries data)) @
                drop (?nb * ?b) (np_empty1 (junk_bmu junk) ?N)"
      using find_bmu_loop_inv[OF wf True bpos l0 nbatch_bounds(2)[OF bpos], of 0 ?st0, OF _ i0 lb]
      by blast
    have "l_bmu st' = map (bmu_of ar weights) (entries data)"
      unfolding r using nbatch_bounds(1)[OF bpos, of ?N] rows l0 by simp
    then show ?thesis using unfold st' True by simp
  next
    case False
    show ?thesis
    proof (cases "0 < ?N")
      case True
      then have "0 < ?nb" using nbatch_bounds(1)[OF bpos, of ?N] by (cases "?nb = 0") auto
      then show ?thesis
        using unfold find_bmu_loop_first_fails[of weights ?nb ar data ?b ?st0] False True by simp
    next
      case N0: False
      then have "?nb = 0" using bpos by simp
      moreover have "entries data = []" using rows N0 by simp
      ultimately show ?thesis using unfold N0 by (simp add: np_empty1_def)
    qed
  qed
qed

lemma find_bmu_junk:
  assumes wf: "wf_matrix data"
  shows "fst (find_bmu ar self data b junk) = fst (find_bmu ar self data b junk')"
proof (cases "som_weights self")
  case None
  then show ?thesis by (simp add: find_bmu_def)
next
  case (Some weights)
  show ?thesis
  proof (cases "ncol data = nrow weights")
    case False
    then show ?thesis using Some by (simp add: find_bmu_def Let_def)
  next
    case True
    consider "b = 0" | "b < 0" | "1 \<le> b" by linarith
    then show ?thesis
    proof cases
      case 1
      then show ?thesis using Some by (simp add: find_bmu_def Let_def)
    next
      case 2
      then have "min (int (nrow data)) b < 0" by simp
      then show ?thesis using Some 2 by (simp add: find_bmu_def Let_def)
    next
      case 3
      show ?thesis
        using find_bmu_positive[OF Some wf True 3, of ar] by simp
    qed
  qed
qed

lemma find_bmu_batchsize:
  assumes wf: "wf_matrix data" and b: "1 \<le> b" and b': "1 \<le> b'"
  shows "fst (find_bmu ar self data b junk) = fst (find_bmu ar self data b' junk')"
proof (cases "som_weights self")
  case None
  then show ?thesis by (simp add: find_bmu_def)
next
  case (Some weights)
  show ?thesis
  proof (cases "ncol data = nrow weights")
    case False
    then show ?thesis using Some by (simp add: find_bmu_def Let_def)
  next
    case True
    show ?thesis
      using find_bmu_positive[OF Some wf True b, of ar] find_bmu_positive[OF Some wf True b', of ar] by simp
  qed
qed

lemma find_bmu_zero:
  assumes "som_weights self = Some weights" and "ncol data = nrow weights"
  shows "fst (find_bmu ar self data 0 junk) = Inl ZeroDivisionError"
  using assms by (simp add: find_bmu_def Let_def)

lemma find_bmu_negative:
  assumes "som_weights self = Some weights" and "ncol data = nrow weights" and "c < 0"
  shows "fst (find_bmu ar self data c junk) = Inl ValueError"
proof -
  have "min (int (nrow data)) c < 0" using assms(3) by simp
  then show ?thesis using assms by (simp add: find_bmu_def Let_def)
qed

lemma computed_distsq_row:
  assumes "wf_matrix data" "wf_matrix weights" "ncol data = nrow weights"
    "i < nrow data" "j < ncol weights"
  shows "row_distsq ar weights (entries data ! i) ! j = computed_distsq ar data weights i j"
proof -
  have "length (entries data ! i) = nrow weights"
    using assms(1,3,4) by (simp add: wf_matrix_def)
  then show ?thesis
    using row_distsq_entry[OF assms(2) _ assms(5), of "entries data ! i" ar] assms(3)
    by (simp add: computed_distsq_def)
qed

lemma computed_distsq_exact:
  "computed_distsq exact_arith data weights i j = sq_euclid data weights i j"
  by (simp add: computed_distsq_def sq_euclid_def exact_arith_def)

subsection \<open>Double precision on the example inputs\<close>

lemma py_round_int: "py_round (of_int n) = n"
  by (simp add: py_round_def Let_def)

lemma f64_bounds:
  assumes "2 powr (of_int k) \<le> \<bar>x\<bar>" and "\<bar>x\<bar> < 2 powr (of_int k + 1)"
  shows "f64 x = of_int (py_round (x / 2 powr (of_int k - 52))) * 2 powr (of_int k - 52)"
proof -
  have pos: "0 < \<bar>x\<bar>" using assms(1) powr_gt_zero[of 2 "of_int k"] by linarith
  then have nz: "x \<noteq> 0" by auto
  have "\<lfloor>log 2 \<bar>x\<bar>\<rfloor> = k"
    using floor_log_eq_powr_iff[of "\<bar>x\<bar>" 2 k] pos assms by simp
  then show ?thesis using nz by (simp add: f64_def Let_def)
qed

lemma f64_int:
  assumes "\<bar>n\<bar> < 2 ^ 53"
  shows "f64 (of_int n) = of_int n"
proof (cases "n = 0")
  case True
  then show ?thesis by (simp add: f64_def)
next
  case False
  define e where "e = \<lfloor>log 2 \<bar>real_of_int n\<bar>\<rfloor>"
  have a1: "1 \<le> \<bar>real_of_int n\<bar>" using False by (simp add: abs_if)
  have e0: "0 \<le> e" unfolding e_def using a1 by simp
  have "\<bar>real_of_int n\<bar> < 2 ^ 53" using assms by (metis of_int_abs of_int_less_numeral_power_cancel_iff)
  then have "log 2 \<bar>real_of_int n\<bar> < 53" using a1 by (simp add: log_less_iff powr_realpow[symmetric])
  then have e52: "e \<le> 52" unfolding e_def by linarith
  define k where "k = nat (52 - e)"
  have u: "(2::real) powr (of_int e - 52) = 1 / 2 ^ k"
  proof -
    have "of_int e - 52 = - real k" using e52 by (simp add: k_def)
    then show ?thesis by (simp add: powr_minus powr_realpow divide_simps)
  qed
  have q: "real_of_int n / (1 / 2 ^ k) = of_int (n * 2 ^ k)" by simp
  have "f64 (of_int n) = of_int (py_round (real_of_int n / (1 / 2 ^ k))) * (1 / 2 ^ k)"
    using False by (simp add: f64_def Let_def e_def[symmetric] u)
  also have "\<dots> = of_int (n * 2 ^ k) * (1 / 2 ^ k)" by (simp only: q py_round_int)
  also have "\<dots> = of_int n" by simp
  finally show ?thesis .
qed

lemma f64_0: "f64 0 = 0" by (simp add: f64_def)
lemma f64_p30: "f64 (- 1073741824) = - 1073741824" using f64_int[of "- 1073741824"] by simp
lemma f64_m1: "f64 (- 1) = - 1" using f64_int[of "- 1"] by simp
lemma f64_p60: "f64 1152921504606846976 = 1152921504606846976"
  using f64_bounds[of 60 1152921504606846976] py_round_int[of "2 ^ 52"]
  by (simp add: powr_minus divide_simps)
lemma f64_p60_1: "f64 1152921504606846977 = 1152921504606846976"
proof -
  have r: "py_round (1152921504606846977 / 256) = 4503599627370496"
    by (simp add: py_round_def Let_def)
  show ?thesis using f64_bounds[of 60 1152921504606846977] r by simp
qed
lemma f64_1: "f64 1 = 1" using f64_int[of 1] by simp

lemma f64_numeral: "numeral n < (2::int) ^ 53 \<Longrightarrow> f64 (numeral n) = numeral n"
  using f64_int[of "numeral n"] by simp

lemma f64_neg_numeral: "numeral n < (2::int) ^ 53 \<Longrightarrow> f64 (- numeral n) = - numeral n"
  using f64_int[of "- numeral n"] by simp

lemma example_wf:
  "wf_matrix example_data" "wf_matrix example_weights" "wf_matrix empty_data"
  "wf_matrix far_data" "wf_matrix far_weights"
  by (simp_all add: wf_matrix_def example_data_def example_weights_def empty_data_def
      far_data_def far_weights_def)

lemma far_weights_simps:
  "ncol far_weights = Suc (Suc 0)" "nrow far_weights = Suc (Suc 0)"
  "entries far_weights = [[1073741824, 1073741824], [1, 0]]"
  by (simp_all add: far_weights_def)

lemma upt_two: "[0..<Suc (Suc 0)] = [0, Suc 0]"
  by (simp add: upt_conv_Cons)

lemma far_row_distsq:
  "row_distsq f64_arith far_weights [0, 0] = [1152921504606846976, 1152921504606846976]"
  unfolding row_distsq_def sum_axis0_def far_weights_simps upt_two
  by (simp add: f64_arith_def f64_0 f64_p30 f64_m1 f64_1 f64_p60 f64_p60_1)

lemma far_exact_distsq:
  "row_distsq exact_arith far_weights [0, 0] = [1152921504606846977, 1152921504606846976]"
  unfolding row_distsq_def sum_axis0_def far_weights_simps upt_two
  by (simp add: exact_arith_def)

lemma far_facts:
  "som_weights far_som = Some far_weights" "ncol far_data = nrow far_weights"
  "entries far_data = [[0, 0]]" "nrow far_data = 1" "ncol far_weights = 2"
  by (simp_all add: far_som_def far_data_def far_weights_def)

lemma far_result_f64:
  "fst (find_bmu f64_arith far_som far_data 1 junk) = Inr [0]"
  using find_bmu_positive[OF far_facts(1) example_wf(4) far_facts(2), of 1 f64_arith junk]
  by (simp add: far_facts bmu_of_def far_row_distsq)

lemma far_result_exact:
  "fst (find_bmu exact_arith far_som far_data 1 junk) = Inr [1]"
  using find_bmu_positive[OF far_facts(1) example_wf(4) far_facts(2), of 1 exact_arith junk]
  by (simp add: far_facts bmu_of_def far_exact_distsq)

lemma far_sq_euclid:
  "sq_euclid far_data far_weights 0 0 = 1152921504606846977"
  "sq_euclid far_data far_weights 0 1 = 1152921504606846976"
  using computed_distsq_row[OF example_wf(4,5) far_facts(2), of 0 0 exact_arith]
    computed_distsq_row[OF example_wf(4,5) far_facts(2), of 0 1 exact_arith]
  by (simp_all add: far_facts far_exact_distsq computed_distsq_exact)

lemma far_computed:
  "computed_distsq f64_arith far_data far_weights 0 0 = 1152921504606846976"
  "computed_distsq f64_arith far_data far_weights 0 1 = 1152921504606846976"
  using computed_distsq_row[OF example_wf(4,5) far_facts(2), of 0 0 f64_arith]
    computed_distsq_row[OF example_wf(4,5) far_facts(2), of 0 1 f64_arith]
  by (simp_all add: far_facts far_row_distsq)

lemma example_facts:
  "som_weights example_som = Some example_weights" "ncol example_data = nrow example_weights"
  "entries example_data = [[0], [3], [1]]" "nrow example_data = 3" "ncol example_weights = 2"
  "ncol empty_data = nrow example_weights" "entries empty_data = []" "nrow empty_data = 0"
  by (simp_all add: example_som_def example_data_def example_weights_def empty_data_def)

lemma example_weights_simps:
  "ncol example_weights = Suc (Suc 0)" "nrow example_weights = Suc 0"
  "entries example_weights = [[0, 2]]"
  by (simp_all add: example_weights_def)

lemma example_row_distsq:
  "row_distsq f64_arith example_weights [0] = [0, 4]"
  "row_distsq f64_arith example_weights [3] = [9, 1]"
  "row_distsq f64_arith example_weights [1] = [1, 1]"
  unfolding row_distsq_def sum_axis0_def example_weights_simps upt_two
  by (simp_all add: f64_arith_def f64_0 f64_1 f64_m1 f64_numeral f64_neg_numeral)

lemma example_result:
  assumes "1 \<le> b"
  shows "fst (find_bmu f64_arith example_som example_data b junk) = Inr [0, 1, 0]"
  using find_bmu_positive[OF example_facts(1) example_wf(1) example_facts(2) assms,
      of f64_arith junk]
  by (simp add: example_facts bmu_of_def example_row_distsq)

lemma empty_result:
  "fst (find_bmu f64_arith example_som empty_data 1 junk) = Inr []"
  using find_bmu_positive[OF example_facts(1) example_wf(3) example_facts(6), of 1 f64_arith junk]
  by (simp add: example_facts)

lemma example_exact:
  assumes "i < nrow example_data" and "j < ncol example_weights"
  shows "computed_distsq f64_arith example_data example_weights i j =
         sq_euclid example_data example_weights i j"
proof -
  have i: "i = 0 \<or> i = 1 \<or> i = 2" using assms(1) by (auto simp: example_facts)
  have j: "j = 0 \<or> j = 1" using assms(2) by (auto simp: example_facts)
  have r: "row_distsq exact_arith example_weights [0] = [0, 4]"
    "row_distsq exact_arith example_weights [3] = [9, 1]"
    "row_distsq exact_arith example_weights [1] = [1, 1]"
    unfolding row_distsq_def sum_axis0_def example_weights_simps upt_two
    by (simp_all add: exact_arith_def)
  have "row_distsq f64_arith example_weights (entries example_data ! i) ! j =
        row_distsq exact_arith example_weights (entries example_data ! i) ! j"
    using i j by (auto simp: example_facts example_row_distsq r)
  then show ?thesis
    using computed_distsq_row[OF example_wf(1,2) example_facts(2) assms, of f64_arith]
      computed_distsq_row[OF example_wf(1,2) example_facts(2) assms, of exact_arith]
    by (simp add: computed_distsq_exact)
qed

lemma example_tables:
  "map (\<lambda>i. map (computed_distsq f64_arith example_data example_weights i)
                 [0..<ncol example_weights]) [0..<nrow example_data] = [[0, 4], [9, 1], [1, 1]]"
  "map (\<lambda>i. map (sq_euclid example_data example_weights i)
                 [0..<ncol example_weights]) [0..<nrow example_data] = [[0, 4], [9, 1], [1, 1]]"
proof -
  have u: "[0..<ncol example_weights] = [0, 1]" "[0..<nrow example_data] = [0, 1, 2]"
    by (simp_all add: example_facts upt_conv_Cons)
  have c: "computed_distsq f64_arith example_data example_weights i j =
           row_distsq f64_arith example_weights (entries example_data ! i) ! j"
    if "i < nrow example_data" "j < ncol example_weights" for i j
    using computed_distsq_row[OF example_wf(1,2) example_facts(2) that, of f64_arith] by simp
  have i: "(0::nat) < nrow example_data" "(1::nat) < nrow example_data"
    "(2::nat) < nrow example_data"
    and j: "(0::nat) < ncol example_weights" "(1::nat) < ncol example_weights"
    by (simp_all add: example_facts)
  have t: "map (\<lambda>i. map (computed_distsq f64_arith example_data example_weights i) [0, 1])
             [0, 1, 2] = [[0, 4], [9, 1], [1, 1]]"
    by (simp add: c[OF i(1) j(1)] c[OF i(1) j(2)] c[OF i(2) j(1)] c[OF i(2) j(2)]
        c[OF i(3) j(1)] c[OF i(3) j(2)] example_facts(3) example_row_distsq
        del: One_nat_def)
  show "map (\<lambda>i. map (computed_distsq f64_arith example_data example_weights i)
                 [0..<ncol example_weights]) [0..<nrow example_data] = [[0, 4], [9, 1], [1, 1]]"
    unfolding u by (rule t)
  have "map (\<lambda>i. map (sq_euclid example_data example_weights i) [0, 1]) [0, 1, 2] =
        map (\<lambda>i. map (computed_distsq f64_arith example_data example_weights i) [0, 1])
          [0, 1, 2]"
    using example_exact[OF i(1) j(1)] example_exact[OF i(1) j(2)]
      example_exact[OF i(2) j(1)] example_exact[OF i(2) j(2)]
      example_exact[OF i(3) j(1)] example_exact[OF i(3) j(2)]
    by (simp del: One_nat_def)
  then show "map (\<lambda>i. map (sq_euclid example_data example_weights i)
                 [0..<ncol example_weights]) [0..<nrow example_data] = [[0, 4], [9, 1], [1, 1]]"
    unfolding u using t by simp
qed

subsection \<open>The result is the nearest prototype, first index on ties\<close>

text \<open>
  Claim C4, as stated, fails: the distances are computed in the dtype of the prototype
  matrix, and the rounding of \<^verbatim>\<open>float64\<close> can hide the difference between two
  prototypes. For the prototypes \<open>(1073741824, 1)\<close> and \<open>(1073741824, 0)\<close> and the data
  row \<open>(0, 0)\<close>, prototype 1 is strictly nearer (squared distances
  \<open>1152921504606846977\<close> and \<open>1152921504606846976\<close>), the sum for prototype 0 is rounded
  to \<open>1152921504606846976\<close>, the two computed distances tie, and \<^verbatim>\<open>find_bmu\<close> returns
  index 0. Over the real numbers the same search returns index 1.
\<close>

theorem find_bmu_float64_not_nearest:
  "fst (find_bmu f64_arith far_som far_data 1 example_junk) = Inr [0] \<and>
   sq_euclid far_data far_weights 0 1 < sq_euclid far_data far_weights 0 0 \<and>
   computed_distsq f64_arith far_data far_weights 0 0
     = computed_distsq f64_arith far_data far_weights 0 1 \<and>
   fst (find_bmu exact_arith far_som far_data 1 example_junk) = Inr [1]"
  by (simp add: far_result_f64 far_result_exact far_sq_euclid far_computed del: One_nat_def)

text \<open>
  Claim C4, amended. For a data matrix of shape \<open>(N, D)\<close> and a prototype matrix of shape
  \<open>(D, size)\<close> with the same \<open>D\<close> and at least one prototype, \<^verbatim>\<open>find_bmu\<close> with a
  batch size of at least one (the default included), whatever the freshly allocated
  arrays hold and whatever the arithmetic of the dtype, returns a vector of length \<open>N\<close>
  whose entry \<open>i\<close> is an index \<open>k\<close> below \<open>size\<close> such that the squared distance of data
  row \<open>i\<close> to prototype \<open>k\<close>, as computed in that arithmetic, is at most the computed
  distance to every prototype and strictly less than the computed distance to every
  prototype of lower index. For a row whose distances are computed without rounding
  error, \<open>k\<close> is therefore the nearest prototype in squared Euclidean distance, the
  first one on ties.
\<close>

theorem find_bmu_nearest:
  assumes "som_weights self = Some weights"
    and "wf_matrix data" and "wf_matrix weights"
    and "ncol data = nrow weights" and "1 \<le> ncol weights" and "1 \<le> batchsize"
  shows "\<exists>bmu. fst (find_bmu ar self data batchsize junk) = Inr bmu \<and>
           length bmu = nrow data \<and>
           (\<forall>i<nrow data. 0 \<le> bmu ! i \<and> nat (bmu ! i) < ncol weights \<and>
              (\<forall>j<ncol weights.
                 computed_distsq ar data weights i (nat (bmu ! i))
                   \<le> computed_distsq ar data weights i j) \<and>
              (\<forall>j<nat (bmu ! i).
                 computed_distsq ar data weights i (nat (bmu ! i))
                   < computed_distsq ar data weights i j) \<and>
              ((\<forall>j<ncol weights.
                  computed_distsq ar data weights i j = sq_euclid data weights i j) \<longrightarrow>
               (\<forall>j<ncol weights.
                  sq_euclid data weights i (nat (bmu ! i)) \<le> sq_euclid data weights i j) \<and>
               (\<forall>j<nat (bmu ! i).
                  sq_euclid data weights i (nat (bmu ! i)) < sq_euclid data weights i j)))"
proof -
  let ?bmu = "map (bmu_of ar weights) (entries data)"
  let ?c = "computed_distsq ar data weights"
  let ?e = "sq_euclid data weights"
  have rows: "length (entries data) = nrow data" using assms(2) by (simp add: wf_matrix_def)
  have res: "fst (find_bmu ar self data batchsize junk) = Inr ?bmu"
    using find_bmu_positive[OF assms(1,2,4,6), of ar junk] assms(5) by simp
  have "0 \<le> ?bmu ! i \<and> nat (?bmu ! i) < ncol weights \<and>
        (\<forall>j<ncol weights. ?c i (nat (?bmu ! i)) \<le> ?c i j) \<and>
        (\<forall>j<nat (?bmu ! i). ?c i (nat (?bmu ! i)) < ?c i j) \<and>
        ((\<forall>j<ncol weights. ?c i j = ?e i j) \<longrightarrow>
         (\<forall>j<ncol weights. ?e i (nat (?bmu ! i)) \<le> ?e i j) \<and>
         (\<forall>j<nat (?bmu ! i). ?e i (nat (?bmu ! i)) < ?e i j))"
    if i: "i < nrow data" for i
  proof -
    let ?ds = "row_distsq ar weights (entries data ! i)"
    let ?k = "argmin ?ds"
    have b: "?bmu ! i = int ?k" using i rows by (simp add: bmu_of_def)
    have len: "length ?ds = ncol weights" by (rule row_distsq_length)
    then have ne: "?ds \<noteq> []" using assms(5) by auto
    have k: "?k < ncol weights" using argmin_less[OF ne] len by simp
    have e: "?ds ! j = ?c i j" if "j < ncol weights" for j
      using computed_distsq_row[OF assms(2,3,4) i that] .
    have le: "?c i ?k \<le> ?c i j" if "j < ncol weights" for j
      using argmin_le[of j ?ds] that len e[OF that] e[OF k] by simp
    have lt: "?c i ?k < ?c i j" if "j < ?k" for j
    proof -
      have "j < ncol weights" using that k by simp
      then show ?thesis using argmin_first[OF that] e e[OF k] by simp
    qed
    have ex: "(\<forall>j<ncol weights. ?e i ?k \<le> ?e i j) \<and> (\<forall>j<?k. ?e i ?k < ?e i j)"
      if x: "\<forall>j<ncol weights. ?c i j = ?e i j"
    proof -
      have "?e i ?k \<le> ?e i j" if "j < ncol weights" for j
        using le[OF that] x that k by simp
      moreover have "?e i ?k < ?e i j" if "j < ?k" for j
      proof -
        have "j < ncol weights" using that k by simp
        then show ?thesis using lt[OF that] x k by simp
      qed
      ultimately show ?thesis by blast
    qed
    show ?thesis unfolding b nat_int using k le lt ex by simp
  qed
  then show ?thesis using res rows by auto
qed

theorem find_bmu_nearest_witness:
  "som_weights example_som = Some example_weights \<and>
   wf_matrix example_data \<and> wf_matrix example_weights \<and>
   ncol example_data = nrow example_weights \<and> 1 \<le> ncol example_weights \<and> (1::int) \<le> 2 \<and>
   map (\<lambda>i. map (computed_distsq f64_arith example_data example_weights i)
                [0..<ncol example_weights]) [0..<nrow example_data] = [[0, 4], [9, 1], [1, 1]] \<and>
   map (\<lambda>i. map (sq_euclid example_data example_weights i)
                [0..<ncol example_weights]) [0..<nrow example_data] = [[0, 4], [9, 1], [1, 1]] \<and>
   fst (find_bmu f64_arith example_som example_data 2 example_junk) = Inr [0, 1, 0] \<and>
   (\<exists>bmu. fst (find_bmu f64_arith example_som example_data 2 example_junk) = Inr bmu \<and>
      length bmu = nrow example_data \<and>
      (\<forall>i<nrow example_data. 0 \<le> bmu ! i \<and> nat (bmu ! i) < ncol example_weights \<and>
         (\<forall>j<ncol example_weights.
            computed_distsq f64_arith example_data example_weights i (nat (bmu ! i))
              \<le> computed_distsq f64_arith example_data example_weights i j) \<and>
         (\<forall>j<nat (bmu ! i).
            computed_distsq f64_arith example_data example_weights i (nat (bmu ! i))
              < computed_distsq f64_arith example_data example_weights i j) \<and>
         (\<forall>j<ncol example_weights.
            sq_euclid example_data example_weights i (nat (bmu ! i))
              \<le> sq_euclid example_data example_weights i j) \<and>
         (\<forall>j<nat (bmu ! i).
            sq_euclid example_data example_weights i (nat (bmu ! i))
              < sq_euclid example_data example_weights i j)))"
proof -
  let ?c = "computed_distsq f64_arith example_data example_weights"
  let ?e = "sq_euclid example_data example_weights"
  have h5: "1 \<le> ncol example_weights" by (simp add: example_facts)
  have h6: "(1::int) \<le> 2" by simp
  have v: "fst (find_bmu f64_arith example_som example_data 2 example_junk) = Inr [0, 1, 0]"
    using h6 by (rule example_result)
  have x: "\<forall>j<ncol example_weights. ?c i j = ?e i j" if "i < nrow example_data" for i
    using example_exact[OF that] by blast
  obtain bmu where b: "fst (find_bmu f64_arith example_som example_data 2 example_junk) = Inr bmu"
    and l: "length bmu = nrow example_data"
    and n: "\<forall>i<nrow example_data. 0 \<le> bmu ! i \<and> nat (bmu ! i) < ncol example_weights \<and>
      (\<forall>j<ncol example_weights. ?c i (nat (bmu ! i)) \<le> ?c i j) \<and>
      (\<forall>j<nat (bmu ! i). ?c i (nat (bmu ! i)) < ?c i j) \<and>
      ((\<forall>j<ncol example_weights. ?c i j = ?e i j) \<longrightarrow>
       (\<forall>j<ncol example_weights. ?e i (nat (bmu ! i)) \<le> ?e i j) \<and>
       (\<forall>j<nat (bmu ! i). ?e i (nat (bmu ! i)) < ?e i j))"
    using find_bmu_nearest[OF example_facts(1) example_wf(1) example_wf(2) example_facts(2) h5 h6,
        of f64_arith example_junk]
    by blast
  have m: "\<forall>i<nrow example_data. 0 \<le> bmu ! i \<and> nat (bmu ! i) < ncol example_weights \<and>
      (\<forall>j<ncol example_weights. ?c i (nat (bmu ! i)) \<le> ?c i j) \<and>
      (\<forall>j<nat (bmu ! i). ?c i (nat (bmu ! i)) < ?c i j) \<and>
      (\<forall>j<ncol example_weights. ?e i (nat (bmu ! i)) \<le> ?e i j) \<and>
      (\<forall>j<nat (bmu ! i). ?e i (nat (bmu ! i)) < ?e i j)"
  proof (intro allI impI)
    fix i assume i: "i < nrow example_data"
    show "0 \<le> bmu ! i \<and> nat (bmu ! i) < ncol example_weights \<and>
      (\<forall>j<ncol example_weights. ?c i (nat (bmu ! i)) \<le> ?c i j) \<and>
      (\<forall>j<nat (bmu ! i). ?c i (nat (bmu ! i)) < ?c i j) \<and>
      (\<forall>j<ncol example_weights. ?e i (nat (bmu ! i)) \<le> ?e i j) \<and>
      (\<forall>j<nat (bmu ! i). ?e i (nat (bmu ! i)) < ?e i j)"
      using n[rule_format, OF i] x[OF i] by blast
  qed
  have r: "\<exists>bmu. fst (find_bmu f64_arith example_som example_data 2 example_junk) = Inr bmu \<and>
      length bmu = nrow example_data \<and>
      (\<forall>i<nrow example_data. 0 \<le> bmu ! i \<and> nat (bmu ! i) < ncol example_weights \<and>
         (\<forall>j<ncol example_weights. ?c i (nat (bmu ! i)) \<le> ?c i j) \<and>
         (\<forall>j<nat (bmu ! i). ?c i (nat (bmu ! i)) < ?c i j) \<and>
         (\<forall>j<ncol example_weights. ?e i (nat (bmu ! i)) \<le> ?e i j) \<and>
         (\<forall>j<nat (bmu ! i). ?e i (nat (bmu ! i)) < ?e i j))"
    using b l m by blast
  show ?thesis
    using example_facts(1,2) example_wf(1,2) h5 h6 example_tables v r by blast
qed

subsection \<open>The batch size does not change the result\<close>

text \<open>
  Claim C2, as stated, fails: \<^verbatim>\<open>batchsize\<close> is a Python integer, and with
  \<^verbatim>\<open>batchsize=0\<close> the computation of \<^verbatim>\<open>nbatch\<close> divides by zero, while
  \<^verbatim>\<open>batchsize=1\<close> returns the assignment vector. The claim's own instance,
  batch size 1 against batch size \<open>N\<close>, fails in the same way on a data matrix with no
  rows. A negative batch size raises as well (negative dimension in \<^verbatim>\<open>np.empty\<close>).
\<close>

theorem find_bmu_batchsize_zero:
  "fst (find_bmu f64_arith example_som example_data 1 example_junk)
     \<noteq> fst (find_bmu f64_arith example_som example_data 0 example_junk) \<and>
   fst (find_bmu f64_arith example_som empty_data 1 example_junk)
     \<noteq> fst (find_bmu f64_arith example_som empty_data (int (nrow empty_data)) example_junk) \<and>
   fst (find_bmu f64_arith example_som example_data 1 example_junk) = Inr [0, 1, 0] \<and>
   fst (find_bmu f64_arith example_som example_data 0 example_junk) = Inl ZeroDivisionError \<and>
   fst (find_bmu f64_arith example_som example_data (- 3) example_junk) = Inl ValueError \<and>
   fst (find_bmu f64_arith example_som empty_data 1 example_junk) = Inr [] \<and>
   fst (find_bmu f64_arith example_som empty_data (int (nrow empty_data)) example_junk)
     = Inl ZeroDivisionError"
proof -
  have z: "fst (find_bmu f64_arith example_som example_data 0 example_junk)
             = Inl ZeroDivisionError"
    using example_facts(1,2) by (rule find_bmu_zero)
  have n: "fst (find_bmu f64_arith example_som example_data (- 3) example_junk)
             = Inl ValueError"
    using example_facts(1,2) by (rule find_bmu_negative) simp
  have e: "fst (find_bmu f64_arith example_som empty_data (int (nrow empty_data)) example_junk)
             = Inl ZeroDivisionError"
    using find_bmu_zero[OF example_facts(1,6), of f64_arith example_junk]
    by (simp add: example_facts)
  show ?thesis
    unfolding z n e by (simp add: example_result empty_result)
qed

text \<open>
  Claim C2, amended. For every well-formed data matrix and every two batch sizes that
  are at least one, \<^verbatim>\<open>find_bmu\<close> gives the same result (the same vector, or the same
  exception), whatever the freshly allocated arrays hold and whatever the arithmetic of
  the dtype; and when the map has a prototype matrix of shape \<open>(D, size)\<close> with the
  data's \<open>D\<close> and at least one prototype, that result is a vector of length \<open>N\<close>. When
  the map has a prototype matrix with the data's \<open>D\<close>, batch size zero raises
  \<^verbatim>\<open>ZeroDivisionError\<close> and every negative batch size raises \<^verbatim>\<open>ValueError\<close>.
\<close>

theorem find_bmu_batchsize_invariant:
  assumes "wf_matrix data" and "1 \<le> b" and "1 \<le> b'"
  shows "fst (find_bmu ar self data b junk) = fst (find_bmu ar self data b' junk') \<and>
         (som_weights self = Some weights \<and> ncol data = nrow weights \<and> 1 \<le> ncol weights \<longrightarrow>
            (\<exists>bmu. fst (find_bmu ar self data b junk) = Inr bmu \<and> length bmu = nrow data)) \<and>
         (som_weights self = Some weights \<and> ncol data = nrow weights \<longrightarrow>
            fst (find_bmu ar self data 0 junk) = Inl ZeroDivisionError \<and>
            (\<forall>c<0. fst (find_bmu ar self data c junk) = Inl ValueError))"
proof -
  have rows: "length (entries data) = nrow data" using assms(1) by (simp add: wf_matrix_def)
  have "\<exists>bmu. fst (find_bmu ar self data b junk) = Inr bmu \<and> length bmu = nrow data"
    if "som_weights self = Some weights" "ncol data = nrow weights" "1 \<le> ncol weights"
    using find_bmu_positive[OF that(1) assms(1) that(2) assms(2), of ar junk] that(3) rows
    by simp
  moreover have "fst (find_bmu ar self data 0 junk) = Inl ZeroDivisionError \<and>
            (\<forall>c<0. fst (find_bmu ar self data c junk) = Inl ValueError)"
    if "som_weights self = Some weights" "ncol data = nrow weights"
    using find_bmu_zero[OF that] find_bmu_negative[OF that] by blast
  ultimately show ?thesis
    using find_bmu_batchsize[OF assms, of ar self junk junk'] by blast
qed

theorem find_bmu_batchsize_invariant_witness:
  "wf_matrix example_data \<and> (1::int) \<le> 1 \<and> (1::int) \<le> 3 \<and>
   fst (find_bmu f64_arith example_som example_data 1 example_junk)
     = fst (find_bmu f64_arith example_som example_data 3 other_junk) \<and>
   som_weights example_som = Some example_weights \<and>
   ncol example_data = nrow example_weights \<and> 1 \<le> ncol example_weights \<and>
   (\<exists>bmu. fst (find_bmu f64_arith example_som example_data 1 example_junk) = Inr bmu \<and>
      length bmu = nrow example_data) \<and>
   fst (find_bmu f64_arith example_som example_data 0 example_junk) = Inl ZeroDivisionError \<and>
   (- 3 :: int) < 0 \<and>
   fst (find_bmu f64_arith example_som example_data (- 3) example_junk) = Inl ValueError"
proof -
  have h2: "(1::int) \<le> 1" and h3: "(1::int) \<le> 3" and h4: "(- 3 :: int) < 0" by simp_all
  have h: "som_weights example_som = Some example_weights"
    "ncol example_data = nrow example_weights" "1 \<le> ncol example_weights"
    by (simp_all add: example_facts)
  show ?thesis
    using example_wf(1) h h2 h3 h4
      find_bmu_batchsize_invariant[OF example_wf(1) h2 h3,
        of f64_arith example_som example_junk other_junk example_weights]
    by blast
qed

subsection \<open>The search leaves the map as it was\<close>

text \<open>
  Claim C10. For every well-formed data matrix and every batch size, \<^verbatim>\<open>find_bmu\<close>
  returns the object as it received it: the prototype matrix and every other attribute
  are unchanged. Hence a second call on the same data gives the same result as the
  first (the same vector, or the same exception), also when the arrays it allocates
  hold other values than those of the first call.
\<close>

theorem find_bmu_read_only:
  assumes "wf_matrix data"
  shows "snd (find_bmu ar self data batchsize junk) = self \<and>
         fst (find_bmu ar (snd (find_bmu ar self data batchsize junk)) data batchsize junk')
           = fst (find_bmu ar self data batchsize junk)"
  using find_bmu_junk[OF assms, of ar self batchsize junk' junk]
  by (simp add: find_bmu_snd)

theorem find_bmu_read_only_witness:
  "wf_matrix example_data \<and>
   snd (find_bmu f64_arith example_som example_data 2 example_junk) = example_som \<and>
   fst (find_bmu f64_arith (snd (find_bmu f64_arith example_som example_data 2 example_junk))
          example_data 2 other_junk)
     = fst (find_bmu f64_arith example_som example_data 2 example_junk)"
  using example_wf(1)
    find_bmu_read_only[OF example_wf(1), of f64_arith example_som 2 example_junk other_junk]
  by blast

section \<open>Properties of training\<close>

subsection \<open>Loops and geometry\<close>

lemma run_loop_invariant:
  assumes "\<And>s x. P s \<Longrightarrow> P (run_state (body s x))" and "P s"
  shows "P (run_state (run_loop body xs s))"
  using assms(2)
proof (induction xs arbitrary: s)
  case Nil
  then show ?case by simp
next
  case (Cons x xs)
  show ?case
  proof (cases "body s x")
    case (Done s')
    then have "P s'" using assms(1)[OF Cons.prems, of x] by simp
    then show ?thesis using Done Cons.IH by simp
  next
    case (Raised e s')
    then have "P s'" using assms(1)[OF Cons.prems, of x] by simp
    then show ?thesis using Raised by simp
  qed
qed

lemma somz_epoch_tt:
  "snd (run_state (somz_epoch ops data batch_size sigma0 sigma_single nt (st, tt) it)) = tt"
  by (simp add: somz_epoch_def Let_def split: sum.splits prod.splits run.splits)

lemma somz_epochs_tt:
  "snd (run_state (run_loop (somz_epoch ops data batch_size sigma0 sigma_single nt) its (st, tt)))
     = tt"
proof -
  have "(\<lambda>s. snd s = tt)
          (run_state (run_loop (somz_epoch ops data batch_size sigma0 sigma_single nt) its (st, tt)))"
  proof (rule run_loop_invariant)
    fix s :: "'a train_state \<times> int" and x
    assume "snd s = tt"
    then show "snd (run_state (somz_epoch ops data batch_size sigma0 sigma_single nt s x)) = tt"
      using somz_epoch_tt[of ops data batch_size sigma0 sigma_single nt "fst s" "snd s" x]
      by (cases s) auto
  qed simp
  then show ?thesis .
qed

lemma fit_somz_tt: "snd (run_state (fit_somz ops args batch_size st0)) = 0"
  by (simp add: fit_somz_def Let_def somz_epochs_tt split: prod.splits sum.splits)

lemma somz_alpha_zero: "somz_alpha 0 nt = aps"
  by (simp add: somz_alpha_def py_pow_def)

lemma somz_sigma_zero: "somz_sigma sigma0 sigma_single 0 nt = sigma0"
  by (simp add: somz_sigma_def py_pow_def)







lemma example_separations: "fst (separations example_grid) = [[0, 1], [1, 0]]"
  by (simp add: example_grid_def separations_def calculate_separations_def add_axis_def
      broadcast_axis_def axis_dx_def wrap_entry_def Let_def upt_conv_Cons eval_nat_numeral)



lemma run_loop_rel:
  assumes "\<And>i s s'. i < length xs \<Longrightarrow> R i s s' \<Longrightarrow>
             rel_run (R (Suc i)) (body s (xs ! i)) (body s' (xs ! i))"
    and "R 0 s s'"
  shows "rel_run (R (length xs)) (run_loop body xs s) (run_loop body xs s')"
  using assms
proof (induction xs arbitrary: R s s')
  case Nil
  then show ?case by simp
next
  case (Cons x xs)
  have step: "rel_run (R (Suc 0)) (body s x) (body s' x)"
    using Cons.prems(1)[of 0 s s'] Cons.prems(2) by simp
  show ?case
  proof (cases "body s x")
    case (Done a)
    then obtain b where b: "body s' x = Done b" and ab: "R (Suc 0) a b"
      using step by (cases "body s' x") auto
    have "rel_run (R (Suc (length xs))) (run_loop body xs a) (run_loop body xs b)"
    proof (rule Cons.IH[of "\<lambda>i. R (Suc i)"])
      fix i t t' assume "i < length xs" "R (Suc i) t t'"
      then show "rel_run (R (Suc (Suc i))) (body t (xs ! i)) (body t' (xs ! i))"
        using Cons.prems(1)[of "Suc i" t t'] by simp
    qed (rule ab)
    then show ?thesis using Done b by simp
  next
    case (Raised e a)
    then obtain b where "body s' x = Raised e b"
      using step by (cases "body s' x") auto
    then show ?thesis using Raised by simp
  qed
qed

lemma run_loop_rel_const:
  assumes "\<And>x s s'. R s s' \<Longrightarrow> rel_run R (body s x) (body s' x)" and "R s s'"
  shows "rel_run R (run_loop body xs s) (run_loop body xs s')"
  using run_loop_rel[of xs "\<lambda>i. R" body s s'] assms by simp

lemma rel_run_mono:
  "rel_run R r r' \<Longrightarrow> (\<And>a b. R a b \<Longrightarrow> Q a b) \<Longrightarrow> rel_run Q r r'"
  by (cases r; cases r') auto

lemma separations_norm:
  "separations (snd (separations g)) = (fst (separations g), snd (separations g))"
  by (simp add: separations_def Let_def split: option.splits)

lemma separations_size: "grid_size (snd (separations g)) = grid_size g"
  by (simp add: separations_def Let_def split: option.splits)

lemma somz_sample_rel:
  assumes "eq_to n k s s'"
  shows "rel_run (\<lambda>a b. eq_to n k (fst a) (fst b) \<and> snd a = snd b)
           (somz_sample alpha sigma (s, l) x) (somz_sample alpha sigma (s', l) x)"
  using assms
  by (simp add: somz_sample_def Let_def eq_to_def split: sum.splits prod.splits)

lemma somviz_sample_rel:
  assumes "eq_to n k s s'"
  shows "rel_run (\<lambda>a b. eq_to n k (fst a) (fst b) \<and> snd a = snd b)
           (somviz_sample lr gw (s, l) x) (somviz_sample lr gw (s', l) x)"
  using assms
  by (simp add: somviz_sample_def Let_def eq_to_def split: sum.splits prod.splits)

lemma somz_samples_rel:
  assumes "eq_to n k s s'"
  shows "rel_run (\<lambda>a b. eq_to n k (fst a) (fst b) \<and> snd a = snd b)
           (run_loop (somz_sample alpha sigma) xs (s, l))
           (run_loop (somz_sample alpha sigma) xs (s', l))"
proof (rule run_loop_rel_const)
  fix x and a b :: "'a train_state \<times> real"
  assume "eq_to n k (fst a) (fst b) \<and> snd a = snd b"
  then show "rel_run (\<lambda>a b. eq_to n k (fst a) (fst b) \<and> snd a = snd b)
               (somz_sample alpha sigma a x) (somz_sample alpha sigma b x)"
    using somz_sample_rel[of n k "fst a" "fst b" alpha sigma "snd a" x] by (cases a; cases b) auto
qed (use assms in simp)

lemma somviz_samples_rel:
  assumes "eq_to n k s s'"
  shows "rel_run (\<lambda>a b. eq_to n k (fst a) (fst b) \<and> snd a = snd b)
           (run_loop (somviz_sample lr gw) xs (s, l))
           (run_loop (somviz_sample lr gw) xs (s', l))"
proof (rule run_loop_rel_const)
  fix x and a b :: "'a train_state \<times> real"
  assume "eq_to n k (fst a) (fst b) \<and> snd a = snd b"
  then show "rel_run (\<lambda>a b. eq_to n k (fst a) (fst b) \<and> snd a = snd b)
               (somviz_sample lr gw a x) (somviz_sample lr gw b x)"
    using somviz_sample_rel[of n k "fst a" "fst b" lr gw "snd a" x] by (cases a; cases b) auto
qed (use assms in simp)

lemma eq_to_rng: "eq_to n k s s' \<Longrightarrow> eq_to n k (s\<lparr>t_rng := r\<rparr>) (s'\<lparr>t_rng := r\<rparr>)"
  by (simp add: eq_to_def)

lemma eq_to_store:
  assumes "eq_to n k s s'" and "k < n"
  shows "eq_to n (Suc k) (s\<lparr>t_loss := (t_loss s)[k := v]\<rparr>) (s'\<lparr>t_loss := (t_loss s')[k := v]\<rparr>)"
  using assms by (simp add: eq_to_def take_Suc_conv_app_nth)

lemma somz_epoch_rel:
  assumes "eq_to n it s s'" and "it < n"
  shows "rel_run (\<lambda>a b. eq_to n (Suc it) (fst a) (fst b) \<and> snd a = snd b)
           (somz_epoch ops data bs sigma0 sigma_single nt (s, tt) it)
           (somz_epoch ops data bs sigma0 sigma_single nt (s', tt) it)"
proof (cases "nt = 0")
  case True
  then show ?thesis by (simp add: somz_epoch_def)
next
  case nz: False
  have rng: "t_rng s' = t_rng s" using assms(1) by (simp add: eq_to_def)
  show ?thesis
  proof (cases "choice ops (t_rng s) (nrow data) bs")
    case (Inl e)
    then show ?thesis using nz rng by (simp add: somz_epoch_def Let_def)
  next
    case (Inr p)
    obtain idx rng1 where p: "p = (idx, rng1)" by (cases p)
    show ?thesis
    proof (cases "take_rows data idx")
      case (Inl e)
      then show ?thesis using nz rng Inr p by (simp add: somz_epoch_def Let_def)
    next
      case xs: (Inr xs)
      let ?alpha = "somz_alpha tt nt"
      let ?sigma = "somz_sigma sigma0 sigma_single tt nt"
      let ?r = "run_loop (somz_sample ?alpha ?sigma) xs (s\<lparr>t_rng := rng1\<rparr>, 0)"
      let ?r' = "run_loop (somz_sample ?alpha ?sigma) xs (s'\<lparr>t_rng := rng1\<rparr>, 0)"
      have rel: "rel_run (\<lambda>a b. eq_to n it (fst a) (fst b) \<and> snd a = snd b) ?r ?r'"
        using somz_samples_rel[OF eq_to_rng[OF assms(1)]] .
      have e: "somz_epoch ops data bs sigma0 sigma_single nt (s, tt) it =
          (case ?r of Raised e (st2, loss2) \<Rightarrow> Raised e (st2, tt)
           | Done (st2, loss2) \<Rightarrow> Done (st2\<lparr>t_loss := (t_loss st2)[it := loss2]\<rparr>, tt))"
        using nz Inr p xs by (simp add: somz_epoch_def Let_def)
      have e': "somz_epoch ops data bs sigma0 sigma_single nt (s', tt) it =
          (case ?r' of Raised e (st2, loss2) \<Rightarrow> Raised e (st2, tt)
           | Done (st2, loss2) \<Rightarrow> Done (st2\<lparr>t_loss := (t_loss st2)[it := loss2]\<rparr>, tt))"
        using nz Inr p xs rng by (simp add: somz_epoch_def Let_def)
      show ?thesis
      proof (cases ?r)
        case (Done a)
        then obtain b where b: "?r' = Done b" and ab: "eq_to n it (fst a) (fst b)" "snd a = snd b"
          using rel by (cases ?r') auto
        show ?thesis unfolding e e' Done b
          using eq_to_store[OF ab(1) assms(2), of "snd a"] ab(2)
          by (cases a; cases b) auto
      next
        case (Raised e a)
        then obtain b where "?r' = Raised e b" using rel by (cases ?r') auto
        then show ?thesis unfolding e e' using Raised by (simp split: prod.splits)
      qed
    qed
  qed
qed

lemma somviz_epoch_rel:
  assumes "eq_to n i s s'" and "i < n"
  shows "rel_run (eq_to n (Suc i))
           (somviz_epoch ops data bs eta large_scale maxiter s i)
           (somviz_epoch ops data bs eta large_scale maxiter s' i)"
proof -
  have rng: "t_rng s' = t_rng s" using assms(1) by (simp add: eq_to_def)
  show ?thesis
  proof (cases "choice ops (t_rng s) (nrow data) bs")
    case (Inl e)
    then show ?thesis using rng by (simp add: somviz_epoch_def Let_def)
  next
    case (Inr p)
    obtain idx rng1 where p: "p = (idx, rng1)" by (cases p)
    show ?thesis
    proof (cases "take_rows data idx")
      case (Inl e)
      then show ?thesis using rng Inr p by (simp add: somviz_epoch_def Let_def)
    next
      case xs: (Inr xs)
      let ?lr = "py_pow eta (real i / real_of_int maxiter)"
      let ?gw = "(1 / 2) * py_pow large_scale (1 - real i / real_of_int maxiter)"
      let ?r = "run_loop (somviz_sample ?lr ?gw) xs (s\<lparr>t_rng := rng1\<rparr>, 0)"
      let ?r' = "run_loop (somviz_sample ?lr ?gw) xs (s'\<lparr>t_rng := rng1\<rparr>, 0)"
      have rel: "rel_run (\<lambda>a b. eq_to n i (fst a) (fst b) \<and> snd a = snd b) ?r ?r'"
        using somviz_samples_rel[OF eq_to_rng[OF assms(1)]] .
      have e: "somviz_epoch ops data bs eta large_scale maxiter s i =
          (case ?r of Raised e (st2, loss2) \<Rightarrow> Raised e st2
           | Done (st2, loss2) \<Rightarrow> Done (st2\<lparr>t_loss := (t_loss st2)[i := loss2]\<rparr>))"
        using Inr p xs by (simp add: somviz_epoch_def Let_def)
      have e': "somviz_epoch ops data bs eta large_scale maxiter s' i =
          (case ?r' of Raised e (st2, loss2) \<Rightarrow> Raised e st2
           | Done (st2, loss2) \<Rightarrow> Done (st2\<lparr>t_loss := (t_loss st2)[i := loss2]\<rparr>))"
        using Inr p xs rng by (simp add: somviz_epoch_def Let_def)
      show ?thesis
      proof (cases ?r)
        case (Done a)
        then obtain b where b: "?r' = Done b" and ab: "eq_to n i (fst a) (fst b)" "snd a = snd b"
          using rel by (cases ?r') auto
        show ?thesis unfolding e e' Done b
          using eq_to_store[OF ab(1) assms(2), of "snd a"] ab(2)
          by (cases a; cases b) auto
      next
        case (Raised e a)
        then obtain b where "?r' = Raised e b" using rel by (cases ?r') auto
        then show ?thesis unfolding e e' using Raised by (simp split: prod.splits)
      qed
    qed
  qed
qed

lemma somz_epochs_rel:
  assumes "eq_to n 0 s s'" and "m \<le> n"
  shows "rel_run (\<lambda>a b. eq_to n m (fst a) (fst b) \<and> snd a = snd b)
           (run_loop (somz_epoch ops data bs sigma0 sigma_single nt) [0..<m] (s, tt))
           (run_loop (somz_epoch ops data bs sigma0 sigma_single nt) [0..<m] (s', tt))"
proof -
  let ?R = "\<lambda>i (a :: 'a train_state \<times> int) (b :: 'a train_state \<times> int).
              eq_to n i (fst a) (fst b) \<and> snd a = snd b"
  have "rel_run (?R (length [0..<m]))
           (run_loop (somz_epoch ops data bs sigma0 sigma_single nt) [0..<m] (s, tt))
           (run_loop (somz_epoch ops data bs sigma0 sigma_single nt) [0..<m] (s', tt))"
  proof (rule run_loop_rel[where R = ?R])
    fix i and a b :: "'a train_state \<times> int"
    assume i: "i < length [0..<m]" and ab: "eq_to n i (fst a) (fst b) \<and> snd a = snd b"
    then have "i < n" using assms(2) by simp
    then show "rel_run (?R (Suc i))
                 (somz_epoch ops data bs sigma0 sigma_single nt a ([0..<m] ! i))
                 (somz_epoch ops data bs sigma0 sigma_single nt b ([0..<m] ! i))"
      using somz_epoch_rel[of n i "fst a" "fst b" ops data bs sigma0 sigma_single nt "snd a"] ab i
      by (cases a; cases b) auto
  qed (use assms(1) in simp)
  then show ?thesis by simp
qed

lemma somviz_epochs_rel:
  assumes "eq_to n 0 s s'" and "m \<le> n"
  shows "rel_run (eq_to n m)
           (run_loop (somviz_epoch ops data bs eta large_scale maxiter) [0..<m] s)
           (run_loop (somviz_epoch ops data bs eta large_scale maxiter) [0..<m] s')"
proof -
  have "rel_run (eq_to n (length [0..<m]))
           (run_loop (somviz_epoch ops data bs eta large_scale maxiter) [0..<m] s)
           (run_loop (somviz_epoch ops data bs eta large_scale maxiter) [0..<m] s')"
  proof (rule run_loop_rel[where R = "eq_to n"])
    fix i and a b :: "'a train_state"
    assume i: "i < length [0..<m]" and ab: "eq_to n i a b"
    then have "i < n" using assms(2) by simp
    then show "rel_run (eq_to n (Suc i))
                 (somviz_epoch ops data bs eta large_scale maxiter a ([0..<m] ! i))
                 (somviz_epoch ops data bs eta large_scale maxiter b ([0..<m] ! i))"
      using somviz_epoch_rel[OF ab, of ops data bs eta large_scale maxiter] i by simp
  qed (rule assms(1))
  then show ?thesis by simp
qed

lemma eq_to_full:
  assumes "eq_to n n a b"
  shows "a = b"
proof -
  have "take (length (t_loss a)) (t_loss a) = take (length (t_loss b)) (t_loss b)"
    using assms by (simp add: eq_to_def)
  then have "t_loss a = t_loss b" by simp
  then show ?thesis using assms by (cases a; cases b) (simp add: eq_to_def)
qed

lemma eq_to_geom: "eq_to n k s s' \<Longrightarrow> eq_to n k (s\<lparr>t_geom := g\<rparr>) (s'\<lparr>t_geom := g\<rparr>)"
  by (simp add: eq_to_def)

lemma fit_somz_rel:
  assumes "eq_to (nat (a_maxiter args)) 0 s s'"
  shows "rel_run (=) (fit_somz ops args bs s) (fit_somz ops args bs s')"
proof -
  let ?n = "nat (a_maxiter args)"
  have g: "t_geom s' = t_geom s" using assms by (simp add: eq_to_def)
  obtain sep1 geom1 where s1: "separations (t_geom s) = (sep1, geom1)"
    by (cases "separations (t_geom s)")
  show ?thesis
  proof (cases "np_max (concat sep1)")
    case (Inl e)
    then show ?thesis using g s1 by (simp add: fit_somz_def Let_def)
  next
    case (Inr sigma0)
    obtain sep2 geom2 where s2: "separations geom1 = (sep2, geom2)"
      by (cases "separations geom1")
    obtain sep3 geom3 where s3: "separations geom2 = (sep3, geom3)"
      by (cases "separations geom2")
    show ?thesis
    proof (cases "np_min (map fst (filter (\<lambda>vm. snd vm > 0) (zip (concat sep2) (concat sep3))))")
      case (Inl e)
      then show ?thesis using g s1 s2 s3 Inr by (simp add: fit_somz_def Let_def)
    next
      case ss: (Inr sigma_single)
      let ?nt = "a_maxiter args * int (nrow (a_data args))"
      let ?body = "somz_epoch ops (a_data args) bs sigma0 sigma_single ?nt"
      have rel: "rel_run (\<lambda>a b. eq_to ?n ?n (fst a) (fst b) \<and> snd a = snd b)
          (run_loop ?body [0..<?n] (s\<lparr>t_geom := geom3\<rparr>, 0))
          (run_loop ?body [0..<?n] (s'\<lparr>t_geom := geom3\<rparr>, 0))"
        using somz_epochs_rel[OF eq_to_geom[OF assms], of ?n] by simp
      have "rel_run (=)
          (run_loop ?body [0..<?n] (s\<lparr>t_geom := geom3\<rparr>, 0))
          (run_loop ?body [0..<?n] (s'\<lparr>t_geom := geom3\<rparr>, 0))"
        by (rule rel_run_mono[OF rel]) (auto dest: eq_to_full simp: prod_eq_iff)
      then show ?thesis using g s1 s2 s3 Inr ss by (simp add: fit_somz_def Let_def)
    qed
  qed
qed

lemma fit_somviz_rel:
  assumes "eq_to (nat (a_maxiter args)) 0 s s'"
  shows "rel_run (=) (fit_somviz ops args bs s) (fit_somviz ops args bs s')"
proof -
  let ?n = "nat (a_maxiter args)"
  have g: "t_geom s' = t_geom s" using assms by (simp add: eq_to_def)
  obtain sep1 geom1 where s1: "separations (t_geom s) = (sep1, geom1)"
    by (cases "separations (t_geom s)")
  let ?body = "somviz_epoch ops (a_data args) bs (a_eta args) (np_mean (concat sep1)) (a_maxiter args)"
  have rel: "rel_run (eq_to ?n ?n)
          (run_loop ?body [0..<?n] (s\<lparr>t_geom := geom1\<rparr>))
          (run_loop ?body [0..<?n] (s'\<lparr>t_geom := geom1\<rparr>))"
    using somviz_epochs_rel[OF eq_to_geom[OF assms], of ?n] by simp
  have "rel_run (=)
          (run_loop ?body [0..<?n] (s\<lparr>t_geom := geom1\<rparr>))
          (run_loop ?body [0..<?n] (s'\<lparr>t_geom := geom1\<rparr>))"
    by (rule rel_run_mono[OF rel]) (auto dest: eq_to_full)
  then show ?thesis using g s1 by (simp add: fit_somviz_def Let_def)
qed

lemma fit_train_rel:
  assumes "eq_to (nat (a_maxiter args)) 0 s s'"
  shows "rel_run (=) (fit_train ops args bs s) (fit_train ops args bs s')"
proof (cases "a_somz args")
  case True
  have "rel_run (=) (fit_somz ops args bs s) (fit_somz ops args bs s')"
    using fit_somz_rel[OF assms] .
  then show ?thesis using True
    by (cases "fit_somz ops args bs s"; cases "fit_somz ops args bs s'")
       (auto simp: fit_train_def split: prod.splits)
next
  case False
  then show ?thesis using fit_somviz_rel[OF assms] by (simp add: fit_train_def)
qed

lemma transpose_matrix_twice:
  assumes "wf_matrix m"
  shows "transpose_matrix (transpose_matrix m) = m"
proof -
  have len: "length (entries m) = nrow m" and row: "\<And>i. i < nrow m \<Longrightarrow> length (entries m ! i) = ncol m"
    using assms by (auto simp: wf_matrix_def)
  have "entries (transpose_matrix (transpose_matrix m)) = entries m"
  proof (rule nth_equalityI)
    show "length (entries (transpose_matrix (transpose_matrix m))) = length (entries m)"
      using len by (simp add: transpose_matrix_def)
  next
    fix i assume "i < length (entries (transpose_matrix (transpose_matrix m)))"
    then have i: "i < nrow m" by (simp add: transpose_matrix_def)
    show "entries (transpose_matrix (transpose_matrix m)) ! i = entries m ! i"
    proof (rule nth_equalityI)
      show "length (entries (transpose_matrix (transpose_matrix m)) ! i) = length (entries m ! i)"
        using i row by (simp add: transpose_matrix_def)
    next
      fix j assume "j < length (entries (transpose_matrix (transpose_matrix m)) ! i)"
      then have "j < ncol m" using i by (simp add: transpose_matrix_def)
      then show "entries (transpose_matrix (transpose_matrix m)) ! i ! j = entries m ! i ! j"
        using i by (simp add: transpose_matrix_def)
    qed
  qed
  then show ?thesis by (cases m) (simp add: transpose_matrix_def)
qed

lemma wf_weights_add: "wf_matrix (weights_add w upd)"
  by (simp add: wf_matrix_def weights_add_def)

lemma init_weights_wf:
  "init_weights ops rng args msize = Inr (w0, rng1) \<Longrightarrow> wf_matrix w0"
  by (auto simp: init_weights_def Let_def wf_matrix_def split: if_splits prod.splits)

lemma run_loop_invariant_fst:
  assumes "\<And>s x. P (fst s) \<Longrightarrow> P (fst (run_state (body s x)))" and "P (fst s)"
  shows "P (fst (run_state (run_loop body xs s)))"
proof -
  have "(\<lambda>s. P (fst s)) (run_state (run_loop body xs s))"
    by (rule run_loop_invariant[of "\<lambda>s. P (fst s)"]) (use assms in auto)
  then show ?thesis .
qed

lemma somz_sample_inv:
  assumes "snd (separations G) = G" and "train_inv G (fst sl)"
  shows "train_inv G (fst (run_state (somz_sample alpha sigma sl x)))"
proof -
  obtain sp where "separations G = (sp, G)" using assms(1) by (cases "separations G") auto
  then show ?thesis
    using assms(2)
    by (simp add: somz_sample_def Let_def train_inv_def wf_weights_add split: sum.splits)
qed

lemma somviz_sample_inv:
  assumes "snd (separations G) = G" and "train_inv G (fst sl)"
  shows "train_inv G (fst (run_state (somviz_sample lr gw sl x)))"
proof -
  obtain sp where "separations G = (sp, G)" using assms(1) by (cases "separations G") auto
  then show ?thesis
    using assms(2)
    by (simp add: somviz_sample_def Let_def train_inv_def wf_weights_add split: sum.splits)
qed

lemma somz_samples_inv:
  assumes "snd (separations G) = G" and "train_inv G st1"
  shows "train_inv G (fst (run_state (run_loop (somz_sample a s) xs (st1, l))))"
  by (rule run_loop_invariant_fst[of "train_inv G"])
     (use assms somz_sample_inv[OF assms(1)] in auto)

lemma somviz_samples_inv:
  assumes "snd (separations G) = G" and "train_inv G st1"
  shows "train_inv G (fst (run_state (run_loop (somviz_sample a s) xs (st1, l))))"
  by (rule run_loop_invariant_fst[of "train_inv G"])
     (use assms somviz_sample_inv[OF assms(1)] in auto)

lemma train_inv_rng: "train_inv G s \<Longrightarrow> train_inv G (s\<lparr>t_rng := r\<rparr>)"
  by (simp add: train_inv_def)

lemma train_inv_loss: "train_inv G s \<Longrightarrow> train_inv G (s\<lparr>t_loss := l\<rparr>)"
  by (simp add: train_inv_def)

lemma somz_epoch_inv:
  assumes "snd (separations G) = G" and "train_inv G (fst stt)"
  shows "train_inv G (fst (run_state (somz_epoch ops data bs sigma0 sigma_single nt stt it)))"
proof (cases "nt = 0")
  case True
  then show ?thesis using assms(2) by (simp add: somz_epoch_def)
next
  case nz: False
  show ?thesis
  proof (cases "choice ops (t_rng (fst stt)) (nrow data) bs")
    case (Inl e)
    then show ?thesis using nz assms(2) by (simp add: somz_epoch_def Let_def)
  next
    case (Inr p)
    obtain idx rng1 where p: "p = (idx, rng1)" by (cases p)
    show ?thesis
    proof (cases "take_rows data idx")
      case (Inl e)
      then show ?thesis
        using nz Inr p train_inv_rng[OF assms(2)] by (simp add: somz_epoch_def Let_def)
    next
      case xs: (Inr xs)
      let ?r = "run_loop (somz_sample (somz_alpha (snd stt) nt)
                   (somz_sigma sigma0 sigma_single (snd stt) nt)) xs (fst stt\<lparr>t_rng := rng1\<rparr>, 0)"
      have inv: "train_inv G (fst (run_state ?r))"
        using somz_samples_inv[OF assms(1) train_inv_rng[OF assms(2)]] .
      show ?thesis
        using nz Inr p xs inv
        by (cases ?r) (auto simp: somz_epoch_def Let_def train_inv_loss split: prod.splits)
    qed
  qed
qed

lemma somviz_epoch_inv:
  assumes "snd (separations G) = G" and "train_inv G st"
  shows "train_inv G (run_state (somviz_epoch ops data bs eta ls maxiter st i))"
proof (cases "choice ops (t_rng st) (nrow data) bs")
  case (Inl e)
  then show ?thesis using assms(2) by (simp add: somviz_epoch_def Let_def)
next
  case (Inr p)
  obtain idx rng1 where p: "p = (idx, rng1)" by (cases p)
  show ?thesis
  proof (cases "take_rows data idx")
    case (Inl e)
    then show ?thesis
      using Inr p train_inv_rng[OF assms(2)] by (simp add: somviz_epoch_def Let_def)
  next
    case xs: (Inr xs)
    let ?r = "run_loop (somviz_sample (py_pow eta (real i / real_of_int maxiter))
                 ((1 / 2) * py_pow ls (1 - real i / real_of_int maxiter))) xs
                 (st\<lparr>t_rng := rng1\<rparr>, 0)"
    have inv: "train_inv G (fst (run_state ?r))"
      using somviz_samples_inv[OF assms(1) train_inv_rng[OF assms(2)]] .
    show ?thesis
      using Inr p xs inv
      by (cases ?r) (auto simp: somviz_epoch_def Let_def train_inv_loss split: prod.splits)
  qed
qed

lemma separations_fix: "snd (separations (snd (separations g))) = snd (separations g)"
  by (simp add: separations_norm)

lemma fit_somz_unfold:
  assumes "separations (t_geom st0) = (sep1, geom1)"
  shows "fit_somz ops args bs st0 =
     (case np_max (concat sep1) of
        Inl e \<Rightarrow> Raised e (st0\<lparr>t_geom := geom1\<rparr>, 0)
      | Inr sigma0 \<Rightarrow>
          (case np_min (map fst (filter (\<lambda>vm. snd vm > 0) (zip (concat sep1) (concat sep1)))) of
             Inl e \<Rightarrow> Raised e (st0\<lparr>t_geom := geom1\<rparr>, 0)
           | Inr sigma_single \<Rightarrow>
               run_loop (somz_epoch ops (a_data args) bs sigma0 sigma_single
                           (a_maxiter args * int (nrow (a_data args))))
                 [0..<nat (a_maxiter args)] (st0\<lparr>t_geom := geom1\<rparr>, 0)))"
proof -
  have sG: "separations geom1 = (sep1, geom1)"
    using separations_norm[of "t_geom st0"] assms by simp
  show ?thesis
    by (simp add: fit_somz_def Let_def assms sG split: sum.splits)
qed

lemma fit_somviz_unfold:
  assumes "separations (t_geom st0) = (sep1, geom1)"
  shows "fit_somviz ops args bs st0 =
     run_loop (somviz_epoch ops (a_data args) bs (a_eta args) (np_mean (concat sep1))
                 (a_maxiter args))
       [0..<nat (a_maxiter args)] (st0\<lparr>t_geom := geom1\<rparr>)"
  by (simp add: fit_somviz_def Let_def assms)

lemma fit_somz_inv:
  assumes "wf_matrix (t_weights st0)"
  shows "train_inv (snd (separations (t_geom st0))) (fst (run_state (fit_somz ops args bs st0)))"
proof -
  obtain sep1 geom1 where s1: "separations (t_geom st0) = (sep1, geom1)"
    by (cases "separations (t_geom st0)")
  have G: "snd (separations (t_geom st0)) = geom1" using s1 by simp
  have fx: "snd (separations geom1) = geom1" using separations_fix[of "t_geom st0"] G by simp
  have inv0: "train_inv geom1 (st0\<lparr>t_geom := geom1\<rparr>)" using assms by (simp add: train_inv_def)
  have loop: "train_inv geom1 (fst (run_state
              (run_loop (somz_epoch ops (a_data args) bs sigma0 sigma_single nt)
                 its (st0\<lparr>t_geom := geom1\<rparr>, 0))))" for sigma0 sigma_single nt its
    by (rule run_loop_invariant_fst[of "train_inv geom1"])
       (use inv0 somz_epoch_inv[OF fx] in auto)
  show ?thesis
    unfolding G fit_somz_unfold[OF s1]
    using inv0 loop by (simp split: sum.splits)
qed

lemma fit_somviz_inv:
  assumes "wf_matrix (t_weights st0)"
  shows "train_inv (snd (separations (t_geom st0))) (run_state (fit_somviz ops args bs st0))"
proof -
  obtain sep1 geom1 where s1: "separations (t_geom st0) = (sep1, geom1)"
    by (cases "separations (t_geom st0)")
  have G: "snd (separations (t_geom st0)) = geom1" using s1 by simp
  have fx: "snd (separations geom1) = geom1" using separations_fix[of "t_geom st0"] G by simp
  have inv0: "train_inv geom1 (st0\<lparr>t_geom := geom1\<rparr>)" using assms by (simp add: train_inv_def)
  have loop: "train_inv geom1 (run_state
              (run_loop (somviz_epoch ops (a_data args) bs eta ls maxiter)
                 its (st0\<lparr>t_geom := geom1\<rparr>)))" for eta ls maxiter its
    by (rule run_loop_invariant[of "train_inv geom1"])
       (use inv0 somviz_epoch_inv[OF fx] in auto)
  show ?thesis
    unfolding G fit_somviz_unfold[OF s1] using loop by simp
qed

lemma fit_train_inv:
  assumes "wf_matrix (t_weights st0)"
  shows "train_inv (snd (separations (t_geom st0))) (run_state (fit_train ops args bs st0))"
proof (cases "a_somz args")
  case True
  then show ?thesis
    using fit_somz_inv[OF assms, of ops args bs]
    by (cases "fit_somz ops args bs st0") (auto simp: fit_train_def)
next
  case False
  then show ?thesis using fit_somviz_inv[OF assms, of ops args bs] by (simp add: fit_train_def)
qed

lemma fit_train_norm:
  "fit_train ops args bs (st0\<lparr>t_geom := snd (separations (t_geom st0))\<rparr>)
     = fit_train ops args bs st0"
proof -
  obtain sep1 geom1 where s1: "separations (t_geom st0) = (sep1, geom1)"
    by (cases "separations (t_geom st0)")
  have G: "snd (separations (t_geom st0)) = geom1" using s1 by simp
  have sG: "separations (t_geom (st0\<lparr>t_geom := geom1\<rparr>)) = (sep1, geom1)"
    using separations_norm[of "t_geom st0"] s1 by simp
  show ?thesis
    unfolding G fit_train_def fit_somz_unfold[OF s1] fit_somz_unfold[OF sG]
      fit_somviz_unfold[OF s1] fit_somviz_unfold[OF sG]
    by (simp split: sum.splits)
qed

lemma fit_somz_maxiter_zero:
  assumes "a_maxiter args = 0"
  shows "t_weights (fst (run_state (fit_somz ops args bs st0))) = t_weights st0 \<and>
         t_loss (fst (run_state (fit_somz ops args bs st0))) = t_loss st0 \<and>
         t_updates (fst (run_state (fit_somz ops args bs st0))) = t_updates st0"
  using assms
  by (simp add: fit_somz_def Let_def split: prod.splits sum.splits)

lemma fit_somviz_maxiter_zero:
  assumes "a_maxiter args = 0"
  shows "t_weights (run_state (fit_somviz ops args bs st0)) = t_weights st0 \<and>
         t_loss (run_state (fit_somviz ops args bs st0)) = t_loss st0 \<and>
         t_updates (run_state (fit_somviz ops args bs st0)) = t_updates st0"
  using assms
  by (simp add: fit_somviz_def Let_def split: prod.splits)

lemma fit_train_maxiter_zero:
  assumes "a_maxiter args = 0"
  shows "t_weights (run_state (fit_train ops args bs st0)) = t_weights st0 \<and>
         t_loss (run_state (fit_train ops args bs st0)) = t_loss st0 \<and>
         t_updates (run_state (fit_train ops args bs st0)) = t_updates st0"
proof (cases "a_somz args")
  case True
  then show ?thesis
    using fit_somz_maxiter_zero[OF assms, of ops bs st0]
    by (cases "fit_somz ops args bs st0") (auto simp: fit_train_def)
next
  case False
  then show ?thesis
    using fit_somviz_maxiter_zero[OF assms, of ops bs st0] by (simp add: fit_train_def)
qed


lemma fit_train_alike:
  assumes "length l = nat (a_maxiter args)" and "length l' = nat (a_maxiter args)"
    and "g' = g \<or> g' = snd (separations g)"
  shows "rel_run (=)
           (fit_train ops args bs \<lparr>t_weights = w, t_loss = l, t_geom = g, t_rng = r, t_updates = u\<rparr>)
           (fit_train ops args bs \<lparr>t_weights = w, t_loss = l', t_geom = g', t_rng = r, t_updates = u\<rparr>)"
proof -
  let ?s = "\<lparr>t_weights = w, t_loss = l, t_geom = g, t_rng = r, t_updates = u\<rparr>"
  let ?s' = "\<lparr>t_weights = w, t_loss = l', t_geom = g, t_rng = r, t_updates = u\<rparr>"
  have "eq_to (nat (a_maxiter args)) 0 ?s ?s'" using assms(1,2) by (simp add: eq_to_def)
  then have rel: "rel_run (=) (fit_train ops args bs ?s) (fit_train ops args bs ?s')"
    by (rule fit_train_rel)
  have "fit_train ops args bs \<lparr>t_weights = w, t_loss = l', t_geom = g', t_rng = r, t_updates = u\<rparr>
          = fit_train ops args bs ?s'"
    using assms(3) fit_train_norm[of ops args bs ?s'] by auto
  then show ?thesis using rel by simp
qed

lemma fit_fresh_agree:
  assumes "som_mapgeom self' = som_mapgeom self \<or>
           som_mapgeom self' = snd (separations (som_mapgeom self))"
  shows "agree (fit_fresh ops self args junk fs) (fit_fresh ops self' args junk' fs')"
proof (cases "a_maxiter args < 0")
  case True
  then show ?thesis by (simp add: fit_fresh_def agree_def Let_def)
next
  case nn: False
  let ?g = "som_mapgeom self"
  have size: "grid_size (som_mapgeom self') = grid_size ?g"
    using assms separations_size[of ?g] by auto
  let ?rng = "RandomState ops (a_seed args)"
  show ?thesis
  proof (cases "init_weights ops ?rng args (grid_size ?g)")
    case (Inl e)
    then show ?thesis using nn size by (simp add: fit_fresh_def agree_def Let_def)
  next
    case (Inr p)
    obtain w0 rng1 where p: "p = (w0, rng1)" by (cases p)
    let ?bs = "py_round (a_iterfrac args * real (nrow (a_data args)))"
    let ?n = "nat (a_maxiter args)"
    let ?t = "fit_train ops args ?bs \<lparr>t_weights = w0, t_loss = np_empty1 junk ?n,
                 t_geom = ?g, t_rng = rng1, t_updates = 0\<rparr>"
    let ?t' = "fit_train ops args ?bs \<lparr>t_weights = w0, t_loss = np_empty1 junk' ?n,
                 t_geom = som_mapgeom self', t_rng = rng1, t_updates = 0\<rparr>"
    have rel: "rel_run (=) ?t ?t'"
      by (rule fit_train_alike) (use assms in \<open>simp_all add: np_empty1_def\<close>)
    have r: "fit_fresh ops self args junk fs =
       (case ?t of
          Raised e st \<Rightarrow>
            \<lparr>r_error = Some e,
             r_self = write_back (self\<lparr>som_data := Some (a_data args),
                         som_loss := Some (np_empty1 junk ?n)\<rparr>) st,
             r_storage = fs, r_updates = t_updates st\<rparr>
        | Done st \<Rightarrow>
            (case a_save args of
               None \<Rightarrow>
                 \<lparr>r_error = None,
                  r_self = write_back (self\<lparr>som_data := Some (a_data args),
                         som_loss := Some (np_empty1 junk ?n)\<rparr>) st,
                  r_storage = fs, r_updates = t_updates st\<rparr>
             | Some save \<Rightarrow>
                 \<lparr>r_error = None,
                  r_self = write_back (self\<lparr>som_data := Some (a_data args),
                         som_loss := Some (np_empty1 junk ?n)\<rparr>) st,
                  r_storage = fs(save \<mapsto>
                    \<lparr>weights_npy = Some (transpose_matrix (t_weights st)),
                     loss_npy = Some (t_loss st)\<rparr>),
                  r_updates = t_updates st\<rparr>))"
      using nn Inr p by (simp add: fit_fresh_def Let_def)
    have r': "fit_fresh ops self' args junk' fs' =
       (case ?t' of
          Raised e st \<Rightarrow>
            \<lparr>r_error = Some e,
             r_self = write_back (self'\<lparr>som_data := Some (a_data args),
                         som_loss := Some (np_empty1 junk' ?n)\<rparr>) st,
             r_storage = fs', r_updates = t_updates st\<rparr>
        | Done st \<Rightarrow>
            (case a_save args of
               None \<Rightarrow>
                 \<lparr>r_error = None,
                  r_self = write_back (self'\<lparr>som_data := Some (a_data args),
                         som_loss := Some (np_empty1 junk' ?n)\<rparr>) st,
                  r_storage = fs', r_updates = t_updates st\<rparr>
             | Some save \<Rightarrow>
                 \<lparr>r_error = None,
                  r_self = write_back (self'\<lparr>som_data := Some (a_data args),
                         som_loss := Some (np_empty1 junk' ?n)\<rparr>) st,
                  r_storage = fs'(save \<mapsto>
                    \<lparr>weights_npy = Some (transpose_matrix (t_weights st)),
                     loss_npy = Some (t_loss st)\<rparr>),
                  r_updates = t_updates st\<rparr>))"
      using nn Inr p size by (simp add: fit_fresh_def Let_def)
    show ?thesis
      unfolding r r' using rel
      by (cases ?t; cases ?t') (auto simp: agree_def write_back_def split: option.splits)
  qed
qed

lemma fit_fresh_after:
  "(som_mapgeom (r_self (fit_fresh ops self args junk fs)) = som_mapgeom self \<or>
          som_mapgeom (r_self (fit_fresh ops self args junk fs))
            = snd (separations (som_mapgeom self))) \<and>
         (r_storage (fit_fresh ops self args junk fs) = fs \<or>
          (\<exists>p W L. a_save args = Some p \<and> r_error (fit_fresh ops self args junk fs) = None \<and>
             r_storage (fit_fresh ops self args junk fs)
               = fs(p \<mapsto> \<lparr>weights_npy = Some (transpose_matrix W), loss_npy = Some L\<rparr>) \<and>
             som_weights (r_self (fit_fresh ops self args junk fs)) = Some W \<and>
             som_loss (r_self (fit_fresh ops self args junk fs)) = Some L \<and> wf_matrix W))"
proof (cases "a_maxiter args < 0")
  case True
  then show ?thesis by (simp add: fit_fresh_def Let_def)
next
  case nn: False
  let ?rng = "RandomState ops (a_seed args)"
  show ?thesis
  proof (cases "init_weights ops ?rng args (grid_size (som_mapgeom self))")
    case (Inl e)
    then show ?thesis using nn by (simp add: fit_fresh_def Let_def)
  next
    case (Inr p)
    obtain w0 rng1 where p: "p = (w0, rng1)" by (cases p)
    have wf0: "wf_matrix w0" using Inr[unfolded p] by (rule init_weights_wf)
    let ?bs = "py_round (a_iterfrac args * real (nrow (a_data args)))"
    let ?st0 = "\<lparr>t_weights = w0, t_loss = np_empty1 junk (nat (a_maxiter args)),
                 t_geom = som_mapgeom self, t_rng = rng1, t_updates = 0\<rparr>"
    let ?t = "fit_train ops args ?bs ?st0"
    have inv: "train_inv (snd (separations (som_mapgeom self))) (run_state ?t)"
      using fit_train_inv[of ?st0 ops args ?bs] wf0 by simp
    show ?thesis
    proof (cases ?t)
      case (Raised e st)
      then show ?thesis
        using nn Inr p inv
        by (simp add: fit_fresh_def Let_def write_back_def train_inv_def)
    next
      case (Done st)
      then show ?thesis
        using nn Inr p inv
        by (cases "a_save args")
           (auto simp: fit_fresh_def Let_def write_back_def train_inv_def)
    qed
  qed
qed

lemma fit_restore_other:
  "fit_restore self' args fs =
     (case fit_restore self args fs of
        Restored s \<Rightarrow> Restored (self'\<lparr>som_weights := som_weights s, som_loss := som_loss s\<rparr>)
      | Fresh \<Rightarrow> Fresh
      | NoDir \<Rightarrow> NoDir)"
  by (simp add: fit_restore_def split: option.splits bool.splits)

lemma fit_agree_same_storage:
  assumes "som_mapgeom self' = som_mapgeom self \<or>
           som_mapgeom self' = snd (separations (som_mapgeom self))"
  shows "agree (fit ops self args junk fs) (fit ops self' args junk' fs)"
proof (cases "fit_restore self args fs")
  case (Restored s)
  then show ?thesis
    using fit_restore_other[of self' args fs self] by (simp add: fit_def agree_def)
next
  case Fresh
  then show ?thesis
    using fit_restore_other[of self' args fs self] fit_fresh_agree[OF assms]
    by (simp add: fit_def)
next
  case NoDir
  then show ?thesis
    using fit_restore_other[of self' args fs self] by (simp add: fit_def agree_def)
qed

lemma fit_agree_again:
  "agree (fit ops self args junk fs)
     (fit ops (r_self (fit ops self args junk fs)) args junk' (r_storage (fit ops self args junk fs)))"
proof (cases "fit_restore self args fs")
  case (Restored s)
  then show ?thesis
    using fit_restore_other[of s args fs self] by (simp add: fit_def agree_def)
next
  case NoDir
  then show ?thesis by (simp add: fit_def agree_def)
next
  case Fresh
  let ?r = "fit_fresh ops self args junk fs"
  have r: "fit ops self args junk fs = ?r" using Fresh by (simp add: fit_def)
  have geom: "som_mapgeom (r_self ?r) = som_mapgeom self \<or>
              som_mapgeom (r_self ?r) = snd (separations (som_mapgeom self))"
    using fit_fresh_after[of ops self args junk fs] by blast
  consider (same) "r_storage ?r = fs"
    | (saved) p W L where "a_save args = Some p" "r_error ?r = None"
        "r_storage ?r = fs(p \<mapsto> \<lparr>weights_npy = Some (transpose_matrix W), loss_npy = Some L\<rparr>)"
        "som_weights (r_self ?r) = Some W" "som_loss (r_self ?r) = Some L" "wf_matrix W"
    using fit_fresh_after[of ops self args junk fs] by blast
  then show ?thesis
  proof cases
    case same
    have "fit_restore (r_self ?r) args fs = Fresh"
      using fit_restore_other[of "r_self ?r" args fs self] Fresh by simp
    then show ?thesis
      unfolding r same using fit_fresh_agree[OF geom, of ops args junk fs junk' fs]
      by (simp add: fit_def)
  next
    case saved
    show ?thesis
    proof (cases "a_use_saved args")
      case True
      then have "fit_restore (r_self ?r) args (r_storage ?r) =
          Restored ((r_self ?r)\<lparr>som_weights := Some (transpose_matrix (transpose_matrix W)),
                                 som_loss := Some L\<rparr>)"
        using saved(1,3) by (simp add: fit_restore_def)
      then show ?thesis
        unfolding r using saved(2,4,5) transpose_matrix_twice[OF saved(6)]
        by (simp add: fit_def agree_def)
    next
      case False
      then have "fit_restore (r_self ?r) args (r_storage ?r) = Fresh"
        using saved(1,3) by (simp add: fit_restore_def)
      then show ?thesis
        unfolding r using fit_fresh_agree[OF geom, of ops args junk fs junk' "r_storage ?r"]
        by (simp add: fit_def)
    qed
  qed
qed

lemma one_init:
  "init_weights example_ops (RandomState example_ops (a_seed one_args)) one_args
       (grid_size (som_mapgeom example_som0))
     = Inr (\<lparr>nrow = 1, ncol = 2, entries = [[1, 1]]\<rparr>, 124)"
  by (simp add: init_weights_def one_args_def default_args_def train_data_def example_ops_def
        example_som0_def som_init_def example_grid_def Let_def upt_conv_Cons np_std_axis0_def
        np_mean_def)

lemma one_round: "py_round (a_iterfrac one_args * real (nrow (a_data one_args))) = 1"
  by (simp add: py_round_def one_args_def default_args_def train_data_def Let_def)

lemma one_sample_junk:
  "somviz_sample 1 (1 / 4)
     (\<lparr>t_weights = \<lparr>nrow = 1, ncol = 2, entries = [[1, 1]]\<rparr>, t_loss = [v],
       t_geom = snd (separations example_grid), t_rng = 125, t_updates = 0\<rparr>, 0) [0]
   = Done (\<lparr>t_weights = \<lparr>nrow = 1, ncol = 2, entries = [[0, 1 - exp (- 8)]]\<rparr>, t_loss = [v],
       t_geom = snd (separations example_grid), t_rng = 125, t_updates = 1\<rparr>, 1)"
proof -
  have s: "separations (snd (separations example_grid)) = ([[0, 1], [1, 0]], snd (separations example_grid))"
    using separations_norm[of example_grid] example_separations by simp
  show ?thesis
    by (simp add: somviz_sample_def Let_def data_diff_def np_sum_axis0_def np_argmin_def s
        weights_add_def upt_conv_Cons)
qed

lemma one_train:
  "fit_train example_ops one_args 1
     \<lparr>t_weights = \<lparr>nrow = 1, ncol = 2, entries = [[1, 1]]\<rparr>, t_loss = [v],
      t_geom = example_grid, t_rng = 124, t_updates = 0\<rparr>
   = Done \<lparr>t_weights = \<lparr>nrow = 1, ncol = 2, entries = [[0, 1 - exp (- 8)]]\<rparr>, t_loss = [1],
       t_geom = snd (separations example_grid), t_rng = 125, t_updates = 1\<rparr>"
proof -
  obtain gm where s: "separations example_grid = ([[0, 1], [1, 0]], gm)"
    using example_separations by (cases "separations example_grid") simp
  have gm: "snd (separations example_grid) = gm" using s by simp
  have a: "a_somz one_args = False" "a_maxiter one_args = 1" "a_eta one_args = 1 / 2"
    "a_data one_args = train_data"
    by (simp_all add: one_args_def default_args_def)
  have c: "choice example_ops 124 (nrow train_data) 1 = Inr ([0], 125)"
    by (simp add: choice_def example_ops_def train_data_def)
  have t: "take_rows train_data [0] = Inr [[0]]"
    by (simp add: take_rows_def train_data_def)
  have p: "py_pow (1 / 2) 0 = 1" "py_pow (1 / 2) 1 = 1 / 2"
    by (simp_all add: py_pow_def)
  have m: "np_mean [0, 1, 1, 0 :: real] = 1 / 2" by (simp add: np_mean_def)
  have e: "somviz_epoch example_ops train_data 1 (1 / 2) (1 / 2) 1
             \<lparr>t_weights = \<lparr>nrow = 1, ncol = 2, entries = [[1, 1]]\<rparr>, t_loss = [v],
               t_geom = gm, t_rng = 124, t_updates = 0\<rparr> 0
           = Done \<lparr>t_weights = \<lparr>nrow = 1, ncol = 2, entries = [[0, 1 - exp (- 8)]]\<rparr>,
               t_loss = [1], t_geom = gm, t_rng = 125, t_updates = 1\<rparr>"
    unfolding somviz_epoch_def Let_def
    by (simp add: p c t one_sample_junk[unfolded gm] del: One_nat_def)
  show ?thesis
    unfolding fit_train_def fit_somviz_def a
    by (simp add: s Let_def m e gm del: One_nat_def)
qed

lemma one_epoch:
  "fit example_ops example_som0 one_args junk no_storage =
     \<lparr>r_error = None,
      r_self = \<lparr>som_mapgeom = snd (separations example_grid),
                som_weights = Some \<lparr>nrow = 1, ncol = 2, entries = [[0, 1 - exp (- 8)]]\<rparr>,
                som_loss = Some [1], som_data = Some train_data\<rparr>,
      r_storage = no_storage, r_updates = 1\<rparr>"
proof -
  have r: "fit_restore example_som0 one_args no_storage = Fresh"
    by (simp add: fit_restore_def one_args_def default_args_def)
  have a: "\<not> a_maxiter one_args < 0" "nat (a_maxiter one_args) = 1" "a_save one_args = None"
    "a_data one_args = train_data" "som_mapgeom example_som0 = example_grid"
    by (simp_all add: one_args_def default_args_def example_som0_def som_init_def)
  have e1: "np_empty1 junk 1 = [junk 0]" by (simp add: np_empty1_def)
  show ?thesis
    unfolding fit_def r restore.case fit_fresh_def Let_def one_round
    using a one_init
    by (simp add: e1 one_train write_back_def example_som0_def som_init_def
        del: One_nat_def)
qed

lemma somz_alpha_decays: "somz_alpha 1 4 < somz_alpha 0 4"
proof -
  have "(5 / 8 :: real) powr (1 / 4) < 1 powr (1 / 4)"
    by (rule powr_less_mono2) simp_all
  then have "(5 / 8 :: real) powr (1 / 4) < 1" by simp
  then show ?thesis by (simp add: somz_alpha_def py_pow_def aps_def ape_def)
qed

subsection \<open>Mode B: the step counter\<close>

text \<open>
  Claim C1 says that in Mode B the step counter \<^verbatim>\<open>tt\<close> advances once per sample, so that
  \<^verbatim>\<open>alpha\<close> and \<^verbatim>\<open>sigma\<close> decay over the run. The code does not do this. What holds of the
  code: no epoch of Mode B changes \<^verbatim>\<open>tt\<close>, whatever it does otherwise and whether it
  finishes or raises; the whole of Mode B ends with \<^verbatim>\<open>tt\<close> equal to zero; and with \<^verbatim>\<open>tt\<close>
  equal to zero (and \<^verbatim>\<open>nt\<close> not zero) the learning rate is \<^verbatim>\<open>aps\<close> and the neighbourhood
  width is \<^verbatim>\<open>sigma0\<close>, in every epoch. A counter that had advanced would give another
  rate: at step one of four the rate is below \<^verbatim>\<open>aps\<close>.
\<close>

theorem somz_step_counter_never_advances:
  "snd (run_state (somz_epoch ops data batch_size sigma0 sigma_single nt (st, tt) it)) = tt \<and>
   snd (run_state (fit_somz ops args batch_size st0)) = 0 \<and>
   (nt \<noteq> 0 \<longrightarrow> somz_alpha 0 nt = aps \<and> somz_sigma sigma0 sigma_single 0 nt = sigma0) \<and>
   somz_alpha 1 4 < somz_alpha 0 4"
  using somz_alpha_decays
  by (simp add: somz_epoch_tt fit_somz_tt somz_alpha_zero somz_sigma_zero)

theorem somz_step_counter_never_advances_witness:
  "snd (run_state (somz_epoch example_ops train_data 1 2 1 4 (decay_state, 0) 0)) = 0 \<and>
   snd (run_state (fit_somz example_ops decay_args 1 decay_state)) = 0 \<and>
   (4 :: int) \<noteq> 0 \<and> somz_alpha 0 4 = aps \<and> somz_sigma 2 1 0 4 = 2 \<and>
   somz_alpha 1 4 < somz_alpha 0 4"
proof -
  have h: "(4 :: int) \<noteq> 0" by simp
  show ?thesis
    using h
      somz_step_counter_never_advances[of example_ops train_data 1 2 1 4 decay_state 0 0
        decay_args decay_state]
    by blast
qed

subsection \<open>Mode B: the update of one sample\<close>




subsection \<open>No epochs\<close>

text \<open>
  Claim C8. When \<^verbatim>\<open>fit\<close> is called with \<^verbatim>\<open>maxiter=0\<close>, in either mode, and goes on to
  train (no storage location, or nothing to restore from it), and the initialisation
  gives the prototype matrix \<open>w0\<close>, then after the call the prototype matrix of the
  object is \<open>w0\<close>, its loss history has length zero, and the statement that updates the
  prototypes has not been executed. This holds also where Mode B raises before its
  loop (a grid without two distinct nodes).
\<close>

theorem fit_maxiter_zero:
  assumes "a_maxiter args = 0"
    and "fit_restore self args fs = Fresh"
    and "init_weights ops (RandomState ops (a_seed args)) args (grid_size (som_mapgeom self))
           = Inr (w0, rng1)"
  shows "som_weights (r_self (fit ops self args junk fs)) = Some w0 \<and>
         som_loss (r_self (fit ops self args junk fs)) = Some [] \<and>
         r_updates (fit ops self args junk fs) = 0"
proof -
  let ?st0 = "\<lparr>t_weights = w0, t_loss = np_empty1 junk (nat (a_maxiter args)),
               t_geom = som_mapgeom self, t_rng = rng1, t_updates = 0\<rparr>"
  let ?bs = "py_round (a_iterfrac args * real (nrow (a_data args)))"
  have z: "t_weights (run_state (fit_train ops args ?bs ?st0)) = w0"
    "t_loss (run_state (fit_train ops args ?bs ?st0)) = []"
    "t_updates (run_state (fit_train ops args ?bs ?st0)) = 0"
    using fit_train_maxiter_zero[OF assms(1), of ops ?bs ?st0] assms(1)
    by (simp_all add: np_empty1_def)
  show ?thesis
    using assms z
    by (cases "fit_train ops args ?bs ?st0")
       (simp_all add: fit_def fit_fresh_def Let_def write_back_def split: option.splits)
qed

theorem fit_maxiter_zero_witness:
  "a_maxiter zero_args = 0 \<and>
   fit_restore example_som0 zero_args no_storage = Fresh \<and>
   init_weights example_ops (RandomState example_ops (a_seed zero_args)) zero_args
       (grid_size (som_mapgeom example_som0))
     = Inr (\<lparr>nrow = 1, ncol = 2, entries = [[1 / 2, 1 / 2]]\<rparr>, 124) \<and>
   som_weights (r_self (fit example_ops example_som0 zero_args (\<lambda>_. 0) no_storage))
     = Some \<lparr>nrow = 1, ncol = 2, entries = [[1 / 2, 1 / 2]]\<rparr> \<and>
   som_loss (r_self (fit example_ops example_som0 zero_args (\<lambda>_. 0) no_storage)) = Some [] \<and>
   r_updates (fit example_ops example_som0 zero_args (\<lambda>_. 0) no_storage) = 0"
proof -
  have h1: "a_maxiter zero_args = 0" by (simp add: zero_args_def)
  have h2: "fit_restore example_som0 zero_args no_storage = Fresh"
    by (simp add: fit_restore_def zero_args_def default_args_def)
  have h3: "init_weights example_ops (RandomState example_ops (a_seed zero_args)) zero_args
       (grid_size (som_mapgeom example_som0))
     = Inr (\<lparr>nrow = 1, ncol = 2, entries = [[1 / 2, 1 / 2]]\<rparr>, 124)"
    by (simp add: init_weights_def zero_args_def default_args_def train_data_def example_ops_def
        example_som0_def som_init_def example_grid_def Let_def upt_conv_Cons)
  show ?thesis
    using h1 h2 h3 fit_maxiter_zero[OF h1 h2 h3, of "\<lambda>_. 0"] by simp
qed

subsection \<open>Determinism\<close>

text \<open>
  Claim C7. Two calls of \<^verbatim>\<open>fit\<close> with the same generator, seed, data and
  hyperparameters (both modes) agree: they raise the same exception or none, and if
  none they leave the same prototype matrix and the same loss history. This holds for
  two calls that start from the same storage on objects with the same geometry,
  whatever the other attributes of the objects and whatever the memory holds where the
  loss arrays are allocated; and it holds for a second call on the object and the
  storage that the first call left behind (where the second call may restore what the
  first one saved). Floating point numbers are real numbers here, so that identical
  means equal.
\<close>

theorem fit_deterministic:
  assumes "som_mapgeom self' = som_mapgeom self"
  shows "agree (fit ops self args junk fs) (fit ops self' args junk' fs) \<and>
         agree (fit ops self args junk fs)
           (fit ops (r_self (fit ops self args junk fs)) args junk'
              (r_storage (fit ops self args junk fs)))"
  using fit_agree_same_storage[of self' self ops args junk fs junk'] assms
    fit_agree_again[of ops self args junk fs junk']
  by simp

theorem fit_deterministic_witness:
  "som_mapgeom example_som = som_mapgeom example_som0 \<and>
   r_error (fit example_ops example_som0 one_args (\<lambda>_. 0) no_storage) = None \<and>
   som_loss (r_self (fit example_ops example_som0 one_args (\<lambda>_. 0) no_storage)) = Some [1] \<and>
   agree (fit example_ops example_som0 one_args (\<lambda>_. 0) no_storage)
     (fit example_ops example_som one_args (\<lambda>k. real k) no_storage) \<and>
   agree (fit example_ops example_som0 one_args (\<lambda>_. 0) no_storage)
     (fit example_ops (r_self (fit example_ops example_som0 one_args (\<lambda>_. 0) no_storage))
        one_args (\<lambda>k. real k)
        (r_storage (fit example_ops example_som0 one_args (\<lambda>_. 0) no_storage)))"
proof -
  have h: "som_mapgeom example_som = som_mapgeom example_som0"
    by (simp add: example_som_def example_som0_def som_init_def)
  have e: "r_error (fit example_ops example_som0 one_args (\<lambda>_. 0) no_storage) = None"
    "som_loss (r_self (fit example_ops example_som0 one_args (\<lambda>_. 0) no_storage)) = Some [1]"
    by (simp_all add: one_epoch)
  show ?thesis
    using h e
      fit_deterministic[OF h, of example_ops one_args "\<lambda>_. 0" no_storage "\<lambda>k. real k"]
    by blast
qed

end
